theory Spec2Isabelle
  imports Complex_Main "HOL-Library.AList" "HOL-Library.Multiset"
begin

section \<open>Python values\<close>

text \<open>
  The semantic engine is Python. A finite \<open>float\<close> is the \<^typ>\<open>real\<close> number it
  denotes; NaN and the infinities are not values of the model. Scores are computed in
  exact arithmetic. The one comparison against a tolerance, in the constructor of the
  ranker, is computed as the interpreter does it, each operation rounded to the nearest
  double (\<open>fl\<close> below). Unbounded \<open>int\<close>s are modelled by \<^typ>\<open>int\<close>,
  its \<open>str\<close> by \<^typ>\<open>string\<close> (a code point beyond ASCII is its UTF-8 bytes) and
  \<open>Optional[str]\<close> by \<^typ>\<open>string option\<close>. A \<open>dict\<close> is an association list
  with pairwise distinct keys in insertion order: \<^const>\<open>map_of\<close> is \<open>dict.get\<close>
  and \<^const>\<open>AList.update\<close> is item assignment (an existing key keeps its place, a
  new key is appended). Every \<open>raise\<close> is a value \<open>Inl e\<close> of a sum type.
\<close>

datatype error =
    ValueError
  | KeyError
  | TypeError
  | AttributeError
  | OSError
  | IllTyped

text \<open>
  \<^const>\<open>IllTyped\<close> is not a Python exception. It marks a document that puts a value
  of another JSON type where a dataclass field is annotated \<open>str\<close>, \<open>float\<close> or
  \<open>Optional[str]\<close>: Python stores such a value unchecked, the typed records below
  cannot hold it, and the model stops there.
\<close>

subsection \<open>\<open>str(int)\<close> and \<open>int(str)\<close>\<close>

definition digit_char :: "nat \<Rightarrow> char" where
  "digit_char d = ''0123456789'' ! d"

fun str_nat :: "nat \<Rightarrow> string" where
  "str_nat n = (if n < 10 then [digit_char n] else str_nat (n div 10) @ [digit_char (n mod 10)])"

declare str_nat.simps [simp del]

definition py_str_int :: "int \<Rightarrow> string" where
  "py_str_int i = (if i < 0 then CHR ''-'' # str_nat (nat (- i)) else str_nat (nat i))"

text \<open>
  \<open>int(s)\<close> on the ASCII fragment: surrounding whitespace (space, tab, line feed,
  vertical tab, form feed, carriage return) is stripped, one sign is allowed, and the
  digits may be grouped by single underscores. Anything else raises \<open>ValueError\<close>.
  (Unicode digits and spaces, and the interpreter's limit on the number of digits, are
  outside the model.)
\<close>

definition is_space :: "char \<Rightarrow> bool" where
  "is_space c = (c \<in> set [CHR '' '', CHR 0x09, CHR 0x0A, CHR 0x0B, CHR 0x0C, CHR 0x0D])"

definition is_digit :: "char \<Rightarrow> bool" where
  "is_digit c = (c \<in> set ''0123456789'')"

definition digit_val :: "char \<Rightarrow> nat" where
  "digit_val c = of_char c - 48"

definition py_strip :: "string \<Rightarrow> string" where
  "py_strip s = rev (dropWhile is_space (rev (dropWhile is_space s)))"

fun digits_ok :: "string \<Rightarrow> bool" where
  "digits_ok [] = False"
| "digits_ok [c] = is_digit c"
| "digits_ok (c # d # cs) =
     (is_digit c \<and> (if d = CHR ''_'' then digits_ok cs else digits_ok (d # cs)))"

definition digits_val :: "string \<Rightarrow> nat" where
  "digits_val s = foldl (\<lambda>acc c. 10 * acc + digit_val c) 0 (filter (\<lambda>c. c \<noteq> CHR ''_'') s)"

definition py_int :: "string \<Rightarrow> error + int" where
  "py_int s =
     (let t = py_strip s;
          neg = (t \<noteq> [] \<and> hd t = CHR ''-'');
          ds = (if t \<noteq> [] \<and> (hd t = CHR ''-'' \<or> hd t = CHR ''+'') then tl t else t)
      in if digits_ok ds
         then Inr (if neg then - int (digits_val ds) else int (digits_val ds))
         else Inl ValueError)"

subsection \<open>Slices and sorting\<close>

text \<open>
  \<open>xs[:k]\<close> and \<open>xs[s:]\<close> for any integer bound: a negative bound counts from the
  end, and a bound outside the list is clipped, never an error.
\<close>

definition py_slice_to :: "int \<Rightarrow> 'a list \<Rightarrow> 'a list" where
  "py_slice_to k xs = (if k < 0 then take (nat (int (length xs) + k)) xs else take (nat k) xs)"

definition py_slice_from :: "int \<Rightarrow> 'a list \<Rightarrow> 'a list" where
  "py_slice_from s xs = (if s < 0 then drop (nat (int (length xs) + s)) xs else drop (nat s) xs)"

text \<open>
  \<open>list.sort\<close> and \<open>sorted\<close> compare with \<open>__lt__\<close> only and are stable: an element
  moves in front of another one only if it is less than it. With \<open>reverse=True\<close> the
  interpreter reverses the list, sorts, and reverses the result, so that equal elements
  still keep their original order.
\<close>

fun insert_lt :: "('a \<Rightarrow> 'a \<Rightarrow> bool) \<Rightarrow> 'a \<Rightarrow> 'a list \<Rightarrow> 'a list" where
  "insert_lt lt x [] = [x]"
| "insert_lt lt x (y # ys) = (if lt y x then y # insert_lt lt x ys else x # y # ys)"

definition py_sort :: "('a \<Rightarrow> 'a \<Rightarrow> bool) \<Rightarrow> 'a list \<Rightarrow> 'a list" where
  "py_sort lt xs = foldr (insert_lt lt) xs []"

definition py_sorted_key :: "('a \<Rightarrow> real) \<Rightarrow> bool \<Rightarrow> 'a list \<Rightarrow> 'a list" where
  "py_sorted_key key reverse xs =
     (if reverse then rev (py_sort (\<lambda>a b. key a < key b) (rev xs))
      else py_sort (\<lambda>a b. key a < key b) xs)"

subsection \<open>Double precision\<close>

text \<open>
  \<open>fl x\<close> is the double nearest to \<open>x\<close>, ties to the even significand: 53 bits from
  the leading one, or multiples of \<open>2^-1074\<close> below \<open>2^-1022\<close>. A float operation
  is the exact operation followed by \<open>fl\<close>, and a literal such as \<open>1e-6\<close> is \<open>fl\<close>
  of the number written. A result beyond the largest double is an infinity in the
  interpreter and a large number here; where \<open>fl\<close> is used below, both are greater
  than the tolerance they are compared with.
\<close>

definition round_half_even :: "real \<Rightarrow> int" where
  "round_half_even q =
     (let f = \<lfloor>q\<rfloor>
      in if q - of_int f < 1 / 2 then f
         else if q - of_int f > 1 / 2 then f + 1
         else if even f then f else f + 1)"

definition ulp_exponent :: "real \<Rightarrow> int" where
  "ulp_exponent x = max \<lfloor>log 2 \<bar>x\<bar>\<rfloor> (- 1022) - 52"

definition fl :: "real \<Rightarrow> real" where
  "fl x =
     (if x = 0 then 0
      else of_int (round_half_even (x / 2 powr of_int (ulp_exponent x))) *
           2 powr of_int (ulp_exponent x))"

subsection \<open>JSON documents\<close>

text \<open>
  \<open>json.dumps\<close> and \<open>json.loads\<close> belong to the standard library. A text is
  represented by the document it denotes, or is malformed; an object is the \<open>dict\<close>
  that \<open>json.loads\<close> returns for it, with text keys.
\<close>

datatype json =
    JNull
  | JBool bool
  | JInt int
  | JFloat real
  | JStr string
  | JArr "json list"
  | JObj "(string \<times> json) list"

datatype json_text = Malformed | Doc json

definition json_dumps :: "json \<Rightarrow> json_text" where
  "json_dumps data = Doc data"

definition json_loads :: "json_text \<Rightarrow> error + json" where
  "json_loads s = (case s of Malformed \<Rightarrow> Inl ValueError | Doc data \<Rightarrow> Inr data)"

section \<open>The mapping database (\<open>mapping_db/symbol_mapping.py\<close>)\<close>

record LaTeXCandidate =
  command :: string
  math_priority :: real
  context' :: string
  description :: "string option"

record SymbolMapping =
  symbol_class_id :: int
  symbol_name :: string
  latex_candidates :: "LaTeXCandidate list"

record SymbolMappingDatabase =
  mappings :: "(int \<times> SymbolMapping) list"

definition SymbolMapping_get_ranked_candidates :: "SymbolMapping \<Rightarrow> LaTeXCandidate list" where
  "SymbolMapping_get_ranked_candidates self =
     py_sorted_key math_priority True (latex_candidates self)"

text \<open>The curated table that \<open>_initialize_mappings\<close> writes into the empty dict.\<close>

definition initialize_mappings :: "(int \<times> SymbolMapping) list" where
  "initialize_mappings =
   [(1, \<lparr>symbol_class_id = 1, symbol_name = ''double right arrow'',
      latex_candidates = [
        \<lparr>command = CHR 0x5C # ''implies'', math_priority = 1.0,
          context' = ''logical implication'',
          description = Some (''Standard symbol for logical implication in mathematical logic'')\<rparr>,
        \<lparr>command = CHR 0x5C # ''Rightarrow'', math_priority = 0.6,
          context' = ''general implication'',
          description = Some (''General double-line right arrow, less specific than '' @ CHR 0x5C # ''implies'')\<rparr>,
        \<lparr>command = CHR 0x5C # ''rightarrow'', math_priority = 0.3,
          context' = ''generic arrow or mapping'',
          description = Some (''Generic right arrow, can mean function mapping or general direction'')\<rparr>]\<rparr>),
    (2, \<lparr>symbol_class_id = 2, symbol_name = ''double left-right arrow'',
      latex_candidates = [
        \<lparr>command = CHR 0x5C # ''iff'', math_priority = 1.0,
          context' = ''if and only if'',
          description = Some (''Standard symbol for logical equivalence (if and only if)'')\<rparr>,
        \<lparr>command = CHR 0x5C # ''Leftrightarrow'', math_priority = 0.6,
          context' = ''general equivalence'',
          description = Some (''General double-line bidirectional arrow'')\<rparr>,
        \<lparr>command = CHR 0x5C # ''leftrightarrow'', math_priority = 0.3,
          context' = ''generic bidirectional arrow'',
          description = Some (''Generic bidirectional arrow'')\<rparr>]\<rparr>),
    (3, \<lparr>symbol_class_id = 3, symbol_name = ''right arrow'',
      latex_candidates = [
        \<lparr>command = CHR 0x5C # ''rightarrow'', math_priority = 0.8,
          context' = ''function mapping or limit'',
          description = Some (''Commonly used for function mappings f: A '' @ CHR 0xE2 # CHR 0x86 # CHR 0x92 # '' B or limits'')\<rparr>,
        \<lparr>command = CHR 0x5C # ''to'', math_priority = 0.7,
          context' = ''function mapping (shorthand)'',
          description = Some (''Shorthand for '' @ CHR 0x5C # ''rightarrow, commonly used in function notation'')\<rparr>,
        \<lparr>command = CHR 0x5C # ''mapsto'', math_priority = 0.9,
          context' = ''element mapping'',
          description = Some (''Maps to (element-wise), e.g., x '' @ CHR 0xE2 # CHR 0x86 # CHR 0xA6 # '' f(x)'')\<rparr>]\<rparr>),
    (4, \<lparr>symbol_class_id = 4, symbol_name = ''subset or equal'',
      latex_candidates = [
        \<lparr>command = CHR 0x5C # ''subseteq'', math_priority = 1.0,
          context' = ''subset or equal'',
          description = Some (''Standard symbol for subset or equal in set theory'')\<rparr>,
        \<lparr>command = CHR 0x5C # ''subset'', math_priority = 0.7,
          context' = ''proper subset'',
          description = Some (''Proper subset (not equal)'')\<rparr>,
        \<lparr>command = CHR 0x5C # ''subseteqq'', math_priority = 0.9,
          context' = ''subset or equal (variant)'',
          description = Some (''Variant of '' @ CHR 0x5C # ''subseteq, less common'')\<rparr>]\<rparr>),
    (5, \<lparr>symbol_class_id = 5, symbol_name = ''element of'',
      latex_candidates = [
        \<lparr>command = CHR 0x5C # ''in'', math_priority = 1.0,
          context' = ''set membership'',
          description = Some (''Standard symbol for set membership (element of)'')\<rparr>,
        \<lparr>command = CHR 0x5C # ''epsilon'', math_priority = 0.2,
          context' = ''Greek letter epsilon'',
          description = Some (''Greek letter epsilon, visually similar but different meaning'')\<rparr>]\<rparr>),
    (6, \<lparr>symbol_class_id = 6, symbol_name = ''union'',
      latex_candidates = [
        \<lparr>command = CHR 0x5C # ''cup'', math_priority = 1.0,
          context' = ''set union'',
          description = Some (''Standard symbol for set union'')\<rparr>,
        \<lparr>command = CHR 0x5C # ''bigcup'', math_priority = 0.9,
          context' = ''big union'',
          description = Some (''Large union operator for indexed unions'')\<rparr>]\<rparr>),
    (7, \<lparr>symbol_class_id = 7, symbol_name = ''intersection'',
      latex_candidates = [
        \<lparr>command = CHR 0x5C # ''cap'', math_priority = 1.0,
          context' = ''set intersection'',
          description = Some (''Standard symbol for set intersection'')\<rparr>,
        \<lparr>command = CHR 0x5C # ''bigcap'', math_priority = 0.9,
          context' = ''big intersection'',
          description = Some (''Large intersection operator for indexed intersections'')\<rparr>]\<rparr>),
    (8, \<lparr>symbol_class_id = 8, symbol_name = ''less than or equal'',
      latex_candidates = [
        \<lparr>command = CHR 0x5C # ''leq'', math_priority = 1.0,
          context' = ''less than or equal'',
          description = Some (''Standard mathematical symbol for less than or equal'')\<rparr>,
        \<lparr>command = CHR 0x5C # ''leqslant'', math_priority = 0.8,
          context' = ''less than or equal (variant)'',
          description = Some (''Variant of '' @ CHR 0x5C # ''leq, less common'')\<rparr>]\<rparr>),
    (9, \<lparr>symbol_class_id = 9, symbol_name = ''greater than or equal'',
      latex_candidates = [
        \<lparr>command = CHR 0x5C # ''geq'', math_priority = 1.0,
          context' = ''greater than or equal'',
          description = Some (''Standard mathematical symbol for greater than or equal'')\<rparr>,
        \<lparr>command = CHR 0x5C # ''geqslant'', math_priority = 0.8,
          context' = ''greater than or equal (variant)'',
          description = Some (''Variant of '' @ CHR 0x5C # ''geq, less common'')\<rparr>]\<rparr>),
    (10, \<lparr>symbol_class_id = 10, symbol_name = ''not equal'',
      latex_candidates = [
        \<lparr>command = CHR 0x5C # ''neq'', math_priority = 1.0,
          context' = ''not equal'',
          description = Some (''Standard mathematical symbol for not equal'')\<rparr>,
        \<lparr>command = CHR 0x5C # ''ne'', math_priority = 0.9,
          context' = ''not equal (shorthand)'',
          description = Some (''Shorthand for '' @ CHR 0x5C # ''neq'')\<rparr>]\<rparr>),
    (11, \<lparr>symbol_class_id = 11, symbol_name = ''approximately equal'',
      latex_candidates = [
        \<lparr>command = CHR 0x5C # ''approx'', math_priority = 1.0,
          context' = ''approximately equal'',
          description = Some (''Standard symbol for approximately equal'')\<rparr>,
        \<lparr>command = CHR 0x5C # ''simeq'', math_priority = 0.8,
          context' = ''asymptotically equal'',
          description = Some (''Asymptotically equal, used in asymptotic analysis'')\<rparr>,
        \<lparr>command = CHR 0x5C # ''cong'', math_priority = 0.7,
          context' = ''congruent'',
          description = Some (''Congruent, used in geometry'')\<rparr>]\<rparr>),
    (12, \<lparr>symbol_class_id = 12, symbol_name = ''for all'',
      latex_candidates = [
        \<lparr>command = CHR 0x5C # ''forall'', math_priority = 1.0,
          context' = ''universal quantifier'',
          description = Some (''Universal quantifier (for all) in mathematical logic'')\<rparr>]\<rparr>),
    (13, \<lparr>symbol_class_id = 13, symbol_name = ''exists'',
      latex_candidates = [
        \<lparr>command = CHR 0x5C # ''exists'', math_priority = 1.0,
          context' = ''existential quantifier'',
          description = Some (''Existential quantifier (there exists) in mathematical logic'')\<rparr>]\<rparr>),
    (14, \<lparr>symbol_class_id = 14, symbol_name = ''multiplication'',
      latex_candidates = [
        \<lparr>command = CHR 0x5C # ''times'', math_priority = 1.0,
          context' = ''multiplication or cross product'',
          description = Some (''Standard symbol for multiplication or cross product'')\<rparr>,
        \<lparr>command = CHR 0x5C # ''cdot'', math_priority = 0.9,
          context' = ''dot product or scalar multiplication'',
          description = Some (''Dot product or scalar multiplication'')\<rparr>,
        \<lparr>command = CHR 0x5C # ''ast'', math_priority = 0.5,
          context' = ''asterisk multiplication'',
          description = Some (''Asterisk multiplication, less common'')\<rparr>]\<rparr>),
    (15, \<lparr>symbol_class_id = 15, symbol_name = ''division'',
      latex_candidates = [
        \<lparr>command = CHR 0x5C # ''div'', math_priority = 1.0,
          context' = ''division'',
          description = Some (''Standard symbol for division'')\<rparr>]\<rparr>),
    (16, \<lparr>symbol_class_id = 16, symbol_name = ''plus minus'',
      latex_candidates = [
        \<lparr>command = CHR 0x5C # ''pm'', math_priority = 1.0,
          context' = ''plus or minus'',
          description = Some (''Standard symbol for plus or minus'')\<rparr>,
        \<lparr>command = CHR 0x5C # ''mp'', math_priority = 0.9,
          context' = ''minus or plus'',
          description = Some (''Minus or plus (opposite of '' @ CHR 0x5C # ''pm)'')\<rparr>]\<rparr>),
    (17, \<lparr>symbol_class_id = 17, symbol_name = ''equivalent'',
      latex_candidates = [
        \<lparr>command = CHR 0x5C # ''equiv'', math_priority = 1.0,
          context' = ''equivalent or congruent'',
          description = Some (''Standard symbol for equivalence or congruence'')\<rparr>,
        \<lparr>command = CHR 0x5C # ''sim'', math_priority = 0.7,
          context' = ''similar or asymptotically equivalent'',
          description = Some (''Similar or asymptotically equivalent'')\<rparr>]\<rparr>),
    (18, \<lparr>symbol_class_id = 18, symbol_name = ''integral'',
      latex_candidates = [
        \<lparr>command = CHR 0x5C # ''int'', math_priority = 1.0,
          context' = ''integral'',
          description = Some (''Standard symbol for integral'')\<rparr>,
        \<lparr>command = CHR 0x5C # ''oint'', math_priority = 0.9,
          context' = ''contour integral'',
          description = Some (''Contour integral (closed path integral)'')\<rparr>,
        \<lparr>command = CHR 0x5C # ''iint'', math_priority = 0.8,
          context' = ''double integral'',
          description = Some (''Double integral'')\<rparr>]\<rparr>),
    (19, \<lparr>symbol_class_id = 19, symbol_name = ''sum'',
      latex_candidates = [
        \<lparr>command = CHR 0x5C # ''sum'', math_priority = 1.0,
          context' = ''summation'',
          description = Some (''Standard symbol for summation'')\<rparr>,
        \<lparr>command = CHR 0x5C # ''Sigma'', math_priority = 0.3,
          context' = ''Greek letter capital sigma'',
          description = Some (''Greek letter capital sigma, visually similar but different from '' @ CHR 0x5C # ''sum'')\<rparr>]\<rparr>),
    (20, \<lparr>symbol_class_id = 20, symbol_name = ''product'',
      latex_candidates = [
        \<lparr>command = CHR 0x5C # ''prod'', math_priority = 1.0,
          context' = ''product'',
          description = Some (''Standard symbol for product'')\<rparr>,
        \<lparr>command = CHR 0x5C # ''Pi'', math_priority = 0.3,
          context' = ''Greek letter capital pi'',
          description = Some (''Greek letter capital pi, visually similar but different from '' @ CHR 0x5C # ''prod'')\<rparr>]\<rparr>)]"

definition SymbolMappingDatabase_init :: SymbolMappingDatabase where
  "SymbolMappingDatabase_init = \<lparr>mappings = initialize_mappings\<rparr>"

definition get_mapping :: "SymbolMappingDatabase \<Rightarrow> int \<Rightarrow> SymbolMapping option" where
  "get_mapping self class_id = map_of (mappings self) class_id"

definition get_ranked_candidates :: "SymbolMappingDatabase \<Rightarrow> int \<Rightarrow> LaTeXCandidate list" where
  "get_ranked_candidates self class_id =
     (case get_mapping self class_id of
        None \<Rightarrow> []
      | Some mapping \<Rightarrow> SymbolMapping_get_ranked_candidates mapping)"

subsection \<open>Serialisation\<close>

definition candidate_to_json :: "LaTeXCandidate \<Rightarrow> json" where
  "candidate_to_json cand =
     JObj [(''command'', JStr (command cand)),
           (''math_priority'', JFloat (math_priority cand)),
           (''context'', JStr (context' cand)),
           (''description'', (case description cand of None \<Rightarrow> JNull | Some d \<Rightarrow> JStr d))]"

definition mapping_to_json :: "SymbolMapping \<Rightarrow> json" where
  "mapping_to_json mapping =
     JObj [(''symbol_class_id'', JInt (symbol_class_id mapping)),
           (''symbol_name'', JStr (symbol_name mapping)),
           (''latex_candidates'', JArr (map candidate_to_json (latex_candidates mapping)))]"

text \<open>
  \<open>to_json\<close> fills a dict keyed by the integer ids; \<open>json.dumps\<close> writes each key
  as the text \<open>str(class_id)\<close>.
\<close>

definition to_json :: "SymbolMappingDatabase \<Rightarrow> json_text" where
  "to_json self =
     json_dumps (JObj (map (\<lambda>(class_id, mapping). (py_str_int class_id, mapping_to_json mapping))
                           (mappings self)))"

text \<open>
  One candidate of \<open>from_json\<close>: \<open>cand["command"]\<close>, \<open>cand["math_priority"]\<close> and
  \<open>cand["context"]\<close> raise \<open>KeyError\<close> when the key is missing and \<open>TypeError\<close>
  when \<open>cand\<close> is not an object; \<open>cand.get("description")\<close> is \<open>None\<close> when the
  key is missing.
\<close>

definition candidate_from_json :: "json \<Rightarrow> error + LaTeXCandidate" where
  "candidate_from_json cand =
     (case cand of
        JObj kv \<Rightarrow>
          (case map_of kv ''command'' of
             None \<Rightarrow> Inl KeyError
           | Some c \<Rightarrow>
          (case map_of kv ''math_priority'' of
             None \<Rightarrow> Inl KeyError
           | Some p \<Rightarrow>
          (case map_of kv ''context'' of
             None \<Rightarrow> Inl KeyError
           | Some x \<Rightarrow>
          (case (c, p, x, map_of kv ''description'') of
             (JStr c', JFloat p', JStr x', None) \<Rightarrow>
               Inr \<lparr>command = c', math_priority = p', context' = x', description = None\<rparr>
           | (JStr c', JFloat p', JStr x', Some JNull) \<Rightarrow>
               Inr \<lparr>command = c', math_priority = p', context' = x', description = None\<rparr>
           | (JStr c', JFloat p', JStr x', Some (JStr d)) \<Rightarrow>
               Inr \<lparr>command = c', math_priority = p', context' = x', description = Some d\<rparr>
           | (JStr c', JInt p', JStr x', None) \<Rightarrow>
               Inr \<lparr>command = c', math_priority = of_int p', context' = x', description = None\<rparr>
           | (JStr c', JInt p', JStr x', Some JNull) \<Rightarrow>
               Inr \<lparr>command = c', math_priority = of_int p', context' = x', description = None\<rparr>
           | (JStr c', JInt p', JStr x', Some (JStr d)) \<Rightarrow>
               Inr \<lparr>command = c', math_priority = of_int p', context' = x', description = Some d\<rparr>
           | _ \<Rightarrow> Inl IllTyped))))
      | _ \<Rightarrow> Inl TypeError)"

fun candidates_loop :: "json list \<Rightarrow> error + LaTeXCandidate list" where
  "candidates_loop [] = Inr []"
| "candidates_loop (cand # rest) =
     (case candidate_from_json cand of
        Inl e \<Rightarrow> Inl e
      | Inr c \<Rightarrow> (case candidates_loop rest of Inl e \<Rightarrow> Inl e | Inr cs \<Rightarrow> Inr (c # cs)))"

text \<open>
  The list comprehension iterates \<open>mapping_data["latex_candidates"]\<close>: an array gives
  its elements; an empty object or empty text gives nothing; a non-empty object or text
  gives text items, on which \<open>cand["command"]\<close> raises \<open>TypeError\<close>; the other values
  are not iterable.
\<close>

definition candidates_from_json :: "json \<Rightarrow> error + LaTeXCandidate list" where
  "candidates_from_json v =
     (case v of
        JArr cands \<Rightarrow> candidates_loop cands
      | JObj kv \<Rightarrow> (if kv = [] then Inr [] else Inl TypeError)
      | JStr t \<Rightarrow> (if t = [] then Inr [] else Inl TypeError)
      | _ \<Rightarrow> Inl TypeError)"

definition mapping_from_json :: "string \<Rightarrow> json \<Rightarrow> error + (int \<times> SymbolMapping)" where
  "mapping_from_json class_id_str mapping_data =
     (case py_int class_id_str of
        Inl e \<Rightarrow> Inl e
      | Inr class_id \<Rightarrow>
          (case mapping_data of
             JObj kv \<Rightarrow>
               (case map_of kv ''latex_candidates'' of
                  None \<Rightarrow> Inl KeyError
                | Some cs \<Rightarrow>
                    (case candidates_from_json cs of
                       Inl e \<Rightarrow> Inl e
                     | Inr candidates \<Rightarrow>
                         (case map_of kv ''symbol_name'' of
                            None \<Rightarrow> Inl KeyError
                          | Some (JStr name) \<Rightarrow>
                              Inr (class_id,
                                   \<lparr>symbol_class_id = class_id, symbol_name = name,
                                    latex_candidates = candidates\<rparr>)
                          | Some _ \<Rightarrow> Inl IllTyped)))
           | _ \<Rightarrow> Inl TypeError))"

fun from_json_loop ::
  "(string \<times> json) list \<Rightarrow> (int \<times> SymbolMapping) list \<Rightarrow> error + (int \<times> SymbolMapping) list"
where
  "from_json_loop [] db_mappings = Inr db_mappings"
| "from_json_loop ((class_id_str, mapping_data) # rest) db_mappings =
     (case mapping_from_json class_id_str mapping_data of
        Inl e \<Rightarrow> Inl e
      | Inr (class_id, mapping) \<Rightarrow>
          from_json_loop rest (AList.update class_id mapping db_mappings))"

text \<open>
  \<open>from_json\<close> parses the text, constructs a database and empties its dict, then fills
  it from \<open>data.items()\<close>, which raises \<open>AttributeError\<close> unless the document is an
  object.
\<close>

definition from_json :: "json_text \<Rightarrow> error + SymbolMappingDatabase" where
  "from_json json_str =
     (case json_loads json_str of
        Inl e \<Rightarrow> Inl e
      | Inr data \<Rightarrow>
          (case data of
             JObj items \<Rightarrow>
               (case from_json_loop items [] of
                  Inl e \<Rightarrow> Inl e
                | Inr db_mappings \<Rightarrow> Inr \<lparr>mappings = db_mappings\<rparr>)
           | _ \<Rightarrow> Inl AttributeError))"

subsection \<open>Files and the merge\<close>

text \<open>
  The file system is an input: whether a path exists, and what opening and reading it
  gives (the text, or the error raised).
\<close>

record filesystem =
  path_exists :: "string \<Rightarrow> bool"
  read_text :: "string \<Rightarrow> error + json_text"

definition from_json_file :: "filesystem \<Rightarrow> string \<Rightarrow> error + SymbolMappingDatabase" where
  "from_json_file fs filepath =
     (case read_text fs filepath of
        Inl e \<Rightarrow> Inl e
      | Inr json_str \<Rightarrow> from_json json_str)"

fun merge_loop ::
  "(int \<times> SymbolMapping) list \<Rightarrow> SymbolMappingDatabase \<Rightarrow> SymbolMappingDatabase"
where
  "merge_loop [] self = self"
| "merge_loop ((class_id, mapping) # rest) self =
     (if map_of (mappings self) class_id = None
      then merge_loop rest (self\<lparr>mappings := AList.update class_id mapping (mappings self)\<rparr>)
      else merge_loop rest self)"

text \<open>
  \<open>load_full_mapping\<close> mutates \<open>self\<close>: the result is the exception raised, if any,
  and the database as the call leaves it.
\<close>

definition load_full_mapping ::
  "filesystem \<Rightarrow> SymbolMappingDatabase \<Rightarrow> string \<Rightarrow> error option \<times> SymbolMappingDatabase"
where
  "load_full_mapping fs self filepath =
     (case from_json_file fs filepath of
        Inl e \<Rightarrow> (Some e, self)
      | Inr full_db \<Rightarrow> (None, merge_loop (mappings full_db) self))"

section \<open>The ranker (\<open>ranking/ranker.py\<close>)\<close>

record RankedCandidate =
  latex_command :: string
  symbol_class_id :: int
  vision_confidence :: real
  math_priority :: real
  combined_score :: real
  context' :: string
  description :: "string option"

text \<open>\<open>__lt__\<close>: the higher combined score comes first.\<close>

definition RankedCandidate_lt :: "RankedCandidate \<Rightarrow> RankedCandidate \<Rightarrow> bool" where
  "RankedCandidate_lt self other = (combined_score self > combined_score other)"

record CandidateRanker =
  mapping_db :: SymbolMappingDatabase
  vision_weight :: real
  math_weight :: real

text \<open>
  The weights are floats: a weight written as a number that is not a double is the
  double nearest to it, as for a literal, so the guard starts from \<open>fl\<close> of each
  weight and rounds the sum and the difference. The ranker keeps the weights as written,
  and the scores are computed from them exactly.
\<close>

definition CandidateRanker_init ::
  "SymbolMappingDatabase option \<Rightarrow> real \<Rightarrow> real \<Rightarrow> error + CandidateRanker"
where
  "CandidateRanker_init db vw mw =
     (let db' = (case db of None \<Rightarrow> SymbolMappingDatabase_init | Some d \<Rightarrow> d);
          total_weight = fl (fl vw + fl mw)
      in if \<bar>fl (total_weight - 1.0)\<bar> > fl (1 / 10 ^ 6)
         then Inl ValueError
         else Inr \<lparr>mapping_db = db', vision_weight = vw, math_weight = mw\<rparr>)"

subsection \<open>Ranking a list of (symbol id, confidence) pairs\<close>

fun top_k_loop ::
  "CandidateRanker \<Rightarrow> int \<Rightarrow> (int \<times> real) list \<Rightarrow> RankedCandidate list \<Rightarrow> RankedCandidate list"
where
  "top_k_loop self top_k_candidates_per_symbol [] all_candidates = all_candidates"
| "top_k_loop self top_k_candidates_per_symbol ((symbol_id, confidence) # rest) all_candidates =
     (let candidates = get_ranked_candidates (mapping_db self) symbol_id
      in if candidates = []
         then top_k_loop self top_k_candidates_per_symbol rest
                (all_candidates @
                 [\<lparr>latex_command = CHR 0x5C # ''symbol_'' @ py_str_int symbol_id,
                   symbol_class_id = symbol_id,
                   vision_confidence = confidence,
                   math_priority = 0.5,
                   combined_score = confidence * vision_weight self + 0.5 * math_weight self,
                   context' = ''symbol (no mapping available)'',
                   description = Some (''Symbol class '' @ py_str_int symbol_id @
                                       '' - mapping not yet available'')\<rparr>])
         else top_k_loop self top_k_candidates_per_symbol rest
                (all_candidates @
                 map (\<lambda>latex_cand.
                        \<lparr>latex_command = command latex_cand,
                         symbol_class_id = symbol_id,
                         vision_confidence = confidence,
                         math_priority = LaTeXCandidate.math_priority latex_cand,
                         combined_score = confidence * vision_weight self +
                                          LaTeXCandidate.math_priority latex_cand * math_weight self,
                         context' = LaTeXCandidate.context' latex_cand,
                         description = LaTeXCandidate.description latex_cand\<rparr>)
                     (py_slice_to top_k_candidates_per_symbol candidates)))"

definition rank_candidates_from_top_k ::
  "CandidateRanker \<Rightarrow> (int \<times> real) list \<Rightarrow> int \<Rightarrow> RankedCandidate list"
where
  "rank_candidates_from_top_k self top_k_symbols top_k_candidates_per_symbol =
     py_sort RankedCandidate_lt (top_k_loop self top_k_candidates_per_symbol top_k_symbols [])"

subsection \<open>Ranking a prediction vector\<close>

text \<open>
  NumPy is a library. The vector is given flattened. \<open>min\<close> and \<open>max\<close> of an array of
  size zero raise \<open>ValueError\<close>. \<open>argsort\<close> returns the indices in ascending order
  of the values; the order it gives to equal values is not fixed by its default
  algorithm, so \<open>argsort\<close> is a parameter of the model.
\<close>

definition np_min :: "real list \<Rightarrow> error + real" where
  "np_min v = (if v = [] then Inl ValueError else Inr (fold min (tl v) (hd v)))"

definition np_max :: "real list \<Rightarrow> error + real" where
  "np_max v = (if v = [] then Inl ValueError else Inr (fold max (tl v) (hd v)))"

fun predictions_loop ::
  "CandidateRanker \<Rightarrow> int \<Rightarrow> (nat \<times> real) list \<Rightarrow> RankedCandidate list \<Rightarrow> RankedCandidate list"
where
  "predictions_loop self top_k_candidates_per_symbol [] all_candidates = all_candidates"
| "predictions_loop self top_k_candidates_per_symbol ((symbol_id, confidence) # rest) all_candidates =
     (let candidates = get_ranked_candidates (mapping_db self) (int symbol_id)
      in if candidates = []
         then predictions_loop self top_k_candidates_per_symbol rest
                (all_candidates @
                 [\<lparr>latex_command = CHR 0x5C # ''symbol_'' @ py_str_int (int symbol_id),
                   symbol_class_id = int symbol_id,
                   vision_confidence = confidence,
                   math_priority = 0.5,
                   combined_score = confidence * vision_weight self + 0.5 * math_weight self,
                   context' = ''symbol (no mapping available)'',
                   description = Some (''Symbol class '' @ py_str_int (int symbol_id) @
                                       '' - mapping not yet available'')\<rparr>])
         else predictions_loop self top_k_candidates_per_symbol rest
                (all_candidates @
                 map (\<lambda>latex_cand.
                        \<lparr>latex_command = command latex_cand,
                         symbol_class_id = int symbol_id,
                         vision_confidence = confidence,
                         math_priority = LaTeXCandidate.math_priority latex_cand,
                         combined_score = confidence * vision_weight self +
                                          LaTeXCandidate.math_priority latex_cand * math_weight self,
                         context' = LaTeXCandidate.context' latex_cand,
                         description = LaTeXCandidate.description latex_cand\<rparr>)
                     (py_slice_to top_k_candidates_per_symbol candidates)))"

text \<open>
  The selection of \<open>rank_candidates\<close>: softmax when a value lies outside \<open>[0, 1]\<close>,
  then the indices \<open>argsort(v)[-top_k_symbols:][::-1]\<close>, paired with their values.
\<close>

definition top_k_selection ::
  "(real list \<Rightarrow> nat list) \<Rightarrow> real list \<Rightarrow> int \<Rightarrow> error + (nat \<times> real) list"
where
  "top_k_selection argsort vision_predictions top_k_symbols =
     (case np_min vision_predictions of
        Inl e \<Rightarrow> Inl e
      | Inr lo \<Rightarrow>
     (case np_max vision_predictions of
        Inl e \<Rightarrow> Inl e
      | Inr hi \<Rightarrow>
          (let predictions =
                 (if lo < 0 \<or> hi > 1.0
                  then (let exp_preds = map (\<lambda>x. exp (x - hi)) vision_predictions
                        in map (\<lambda>e. e / sum_list exp_preds) exp_preds)
                  else vision_predictions);
               top_k_indices = rev (py_slice_from (- top_k_symbols) (argsort predictions));
               top_k_confidences = map (\<lambda>i. predictions ! i) top_k_indices
           in Inr (zip top_k_indices top_k_confidences))))"

definition rank_candidates ::
  "(real list \<Rightarrow> nat list) \<Rightarrow> CandidateRanker \<Rightarrow> real list \<Rightarrow> int \<Rightarrow> int
     \<Rightarrow> error + RankedCandidate list"
where
  "rank_candidates argsort self vision_predictions top_k_symbols top_k_candidates_per_symbol =
     (case top_k_selection argsort vision_predictions top_k_symbols of
        Inl e \<Rightarrow> Inl e
      | Inr selected \<Rightarrow>
          Inr (py_sort RankedCandidate_lt
                 (predictions_loop self top_k_candidates_per_symbol selected [])))"

text \<open>A stable \<open>argsort\<close>, one of the functions the parameter stands for.\<close>

definition argsort_stable :: "real list \<Rightarrow> nat list" where
  "argsort_stable v = map snd (py_sort (\<lambda>a b. fst a < fst b) (zip v [0 ..< length v]))"

section \<open>The suggestion engine (\<open>integration.py\<close>)\<close>

datatype log_line =
    Warning_could_not_load error
  | Using_default_mappings_only

record 'r SemanticSuggestionEngine =
  mapping_db :: SymbolMappingDatabase
  ranker :: CandidateRanker
  renderer :: "'r option"

text \<open>
  The constructor prints and then returns the engine or raises: the result is what it
  printed and the outcome. \<open>here\<close> is the directory of the module, under which the
  file of the generated mappings is looked for. The file is merged only when no database
  is passed in, the flag is set and the file exists.
\<close>

definition SemanticSuggestionEngine_init ::
  "filesystem \<Rightarrow> string \<Rightarrow> SymbolMappingDatabase option \<Rightarrow> CandidateRanker option \<Rightarrow> 'r option
     \<Rightarrow> bool \<Rightarrow> log_line list \<times> (error + 'r SemanticSuggestionEngine)"
where
  "SemanticSuggestionEngine_init fs here db rk rd load_full =
     (let full_mapping_path = here @ ''/mapping_db/symbol_mapping_full.json'';
          (db', printed) =
            (case db of
               Some d \<Rightarrow> (d, [])
             | None \<Rightarrow>
                 (if load_full \<and> path_exists fs full_mapping_path
                  then (case load_full_mapping fs SymbolMappingDatabase_init full_mapping_path of
                          (None, d) \<Rightarrow> (d, [])
                        | (Some e, d) \<Rightarrow>
                            (d, [Warning_could_not_load e, Using_default_mappings_only]))
                  else (SymbolMappingDatabase_init, [])))
      in case rk of
           Some r \<Rightarrow>
             (printed, Inr \<lparr>mapping_db = db', ranker = r, renderer = rd\<rparr>)
         | None \<Rightarrow>
             (case CandidateRanker_init (Some db') 0.6 0.4 of
                Inl e \<Rightarrow> (printed, Inl e)
              | Inr r \<Rightarrow> (printed, Inr \<lparr>mapping_db = db', ranker = r, renderer = rd\<rparr>)))"

text \<open>
  \<open>create_suggestion_engine\<close> merges the file itself, prints one line when the merge
  raises, constructs the ranker with the given weights, and passes database and ranker
  to the constructor above, with no renderer.
\<close>

definition create_suggestion_engine ::
  "filesystem \<Rightarrow> string \<Rightarrow> real \<Rightarrow> real \<Rightarrow> bool
     \<Rightarrow> log_line list \<times> (error + 'r SemanticSuggestionEngine)"
where
  "create_suggestion_engine fs here vw mw load_full =
     (let full_mapping_path = here @ ''/mapping_db/symbol_mapping_full.json'';
          (db, printed) =
            (if load_full \<and> path_exists fs full_mapping_path
             then (case load_full_mapping fs SymbolMappingDatabase_init full_mapping_path of
                     (None, d) \<Rightarrow> (d, [])
                   | (Some e, d) \<Rightarrow> (d, [Warning_could_not_load e]))
             else (SymbolMappingDatabase_init, []))
      in case CandidateRanker_init (Some db) vw mw of
           Inl e \<Rightarrow> (printed, Inl e)
         | Inr r \<Rightarrow>
             (case SemanticSuggestionEngine_init fs here (Some db) (Some r) None True of
                (printed', outcome) \<Rightarrow> (printed @ printed', outcome)))"

section \<open>Example inputs\<close>

text \<open>A database with one symbol whose first and third candidate have equal priority.\<close>

definition tie_db :: SymbolMappingDatabase where
  "tie_db = \<lparr>mappings = [(7, \<lparr>SymbolMapping.symbol_class_id = 7, symbol_name = ''tie'',
      latex_candidates = [
        \<lparr>command = ''a'', LaTeXCandidate.math_priority = 0.5,
          LaTeXCandidate.context' = ''first'', LaTeXCandidate.description = None\<rparr>,
        \<lparr>command = ''b'', LaTeXCandidate.math_priority = 0.9,
          LaTeXCandidate.context' = ''second'', LaTeXCandidate.description = None\<rparr>,
        \<lparr>command = ''c'', LaTeXCandidate.math_priority = 0.5,
          LaTeXCandidate.context' = ''third'', LaTeXCandidate.description = None\<rparr>]\<rparr>)]\<rparr>"

text \<open>
  A document with two records. The first has the text key \<open>7\<close> and the inner
  \<open>symbol_class_id\<close> 99; the second has the key \<open>8\<close> and no description.
\<close>

definition example_items :: "(string \<times> json) list" where
  "example_items =
          [(''7'', JObj [(''symbol_class_id'', JInt 99),
                          (''symbol_name'', JStr ''generated seven''),
                          (''latex_candidates'',
                             JArr [JObj [(''command'', JStr ''z''),
                                         (''math_priority'', JFloat 0.4),
                                         (''context'', JStr ''generated''),
                                         (''description'', JStr ''from the file'')]])]),
           (''8'', JObj [(''symbol_class_id'', JInt 8),
                          (''symbol_name'', JStr ''generated eight''),
                          (''latex_candidates'',
                             JArr [JObj [(''command'', JStr ''y''),
                                         (''math_priority'', JInt 1),
                                         (''context'', JStr ''generated'')]])])]"

definition example_doc :: json where
  "example_doc = JObj example_items"

definition fs_example :: filesystem where
  "fs_example = \<lparr>path_exists = (\<lambda>p. True), read_text = (\<lambda>p. Inr (Doc example_doc))\<rparr>"

definition fs_unreadable :: filesystem where
  "fs_unreadable = \<lparr>path_exists = (\<lambda>p. True), read_text = (\<lambda>p. Inl OSError)\<rparr>"

text \<open>No file: the path does not exist and opening it raises.\<close>

definition fs_missing :: filesystem where
  "fs_missing = \<lparr>path_exists = (\<lambda>p. False), read_text = (\<lambda>p. Inl OSError)\<rparr>"

definition fs_malformed :: filesystem where
  "fs_malformed = \<lparr>path_exists = (\<lambda>p. True), read_text = (\<lambda>p. Inr Malformed)\<rparr>"

definition default_ranker :: CandidateRanker where
  "default_ranker =
     \<lparr>CandidateRanker.mapping_db = SymbolMappingDatabase_init,
      vision_weight = 0.6, math_weight = 0.4\<rparr>"

text \<open>The double written \<open>1.00000000001e-06\<close>, which is greater than \<open>1e-6\<close>.\<close>

definition weight_above_tolerance :: real where
  "weight_above_tolerance = 4722366482916869 / 2 ^ 72"

section \<open>What one selected symbol contributes\<close>

text \<open>
  The suggestions that one iteration of the loop of \<open>rank_candidates_from_top_k\<close>
  appends: the loop run on that pair alone.
\<close>

definition suggestions_for :: "CandidateRanker \<Rightarrow> int \<Rightarrow> int \<times> real \<Rightarrow> RankedCandidate list" where
  "suggestions_for self top_k_candidates_per_symbol p =
     top_k_loop self top_k_candidates_per_symbol [p] []"

definition of_index :: "nat \<times> real \<Rightarrow> int \<times> real" where
  "of_index p = (int (fst p), snd p)"

text \<open>An entry of the dict with the id of the mapping set to the key.\<close>

definition rekey :: "int \<times> SymbolMapping \<Rightarrow> int \<times> SymbolMapping" where
  "rekey p = (fst p, (snd p)\<lparr>SymbolMapping.symbol_class_id := fst p\<rparr>)"

text \<open>
  What the scoring rule asks to record for one selected pair: each kept candidate of the
  symbol, or the placeholder when the symbol has none, with the combined score
  \<open>vw * confidence + mw * priority\<close>.
\<close>

definition scored_suggestions ::
  "real \<Rightarrow> real \<Rightarrow> SymbolMappingDatabase \<Rightarrow> int \<Rightarrow> int \<times> real \<Rightarrow> RankedCandidate list"
where
  "scored_suggestions vw mw db kc p =
     (let i = fst p; c = snd p; kept = py_slice_to kc (get_ranked_candidates db i)
      in if get_ranked_candidates db i = []
         then [\<lparr>latex_command = CHR 0x5C # ''symbol_'' @ py_str_int i,
                symbol_class_id = i,
                vision_confidence = c,
                math_priority = 0.5,
                combined_score = vw * c + mw * 0.5,
                context' = ''symbol (no mapping available)'',
                description = Some (''Symbol class '' @ py_str_int i @
                                    '' - mapping not yet available'')\<rparr>]
         else map (\<lambda>cand.
                     \<lparr>latex_command = command cand,
                      symbol_class_id = i,
                      vision_confidence = c,
                      math_priority = LaTeXCandidate.math_priority cand,
                      combined_score = vw * c + mw * LaTeXCandidate.math_priority cand,
                      context' = LaTeXCandidate.context' cand,
                      description = LaTeXCandidate.description cand\<rparr>)
                  kept)"

section \<open>Sorting\<close>

text \<open>
  On a real-valued key, the insertion of \<^const>\<open>py_sort\<close> is the stable insertion of
  the library, so its facts on order, content and stability apply.
\<close>

lemma insert_lt_insort_key:
  fixes key :: "'a \<Rightarrow> real"
  shows "insert_lt (\<lambda>a b. key a < key b) x xs = insort_key key x xs"
  by (induction xs) (auto simp: not_less)

lemma py_sort_sort_key:
  fixes key :: "'a \<Rightarrow> real"
  shows "py_sort (\<lambda>a b. key a < key b) xs = sort_key key xs"
  by (induction xs) (simp_all add: py_sort_def insert_lt_insort_key)

lemma py_sort_RankedCandidate_lt:
  "py_sort RankedCandidate_lt xs = sort_key (\<lambda>r. - combined_score r) xs"
proof -
  have "RankedCandidate_lt = (\<lambda>a b. - combined_score a < - combined_score b)"
    by (auto simp: RankedCandidate_lt_def fun_eq_iff)
  then show ?thesis
    using py_sort_sort_key [of "\<lambda>r. - combined_score r" xs] by simp
qed

lemma py_sorted_key_reverse:
  "py_sorted_key key True xs = rev (sort_key key (rev xs))"
  by (simp add: py_sorted_key_def py_sort_sort_key)

lemma ranked_mset:
  "mset (SymbolMapping_get_ranked_candidates m) = mset (latex_candidates m)"
  by (simp add: SymbolMapping_get_ranked_candidates_def py_sorted_key_reverse)

lemma ranked_descending:
  "sorted_wrt (\<lambda>a b. LaTeXCandidate.math_priority a \<ge> LaTeXCandidate.math_priority b)
     (SymbolMapping_get_ranked_candidates m)"
proof -
  have "sorted (map LaTeXCandidate.math_priority
          (sort_key LaTeXCandidate.math_priority (rev (latex_candidates m))))"
    by (rule sorted_sort_key)
  then show ?thesis
    by (simp add: SymbolMapping_get_ranked_candidates_def py_sorted_key_reverse
        sorted_wrt_rev sorted_map)
qed

lemma ranked_stable:
  "filter (\<lambda>c. LaTeXCandidate.math_priority c = p) (SymbolMapping_get_ranked_candidates m) =
   filter (\<lambda>c. LaTeXCandidate.math_priority c = p) (latex_candidates m)"
proof -
  have "filter (\<lambda>c. LaTeXCandidate.math_priority c = p)
          (rev (sort_key LaTeXCandidate.math_priority (rev (latex_candidates m)))) =
        rev (filter (\<lambda>c. LaTeXCandidate.math_priority c = p)
          (sort_key LaTeXCandidate.math_priority (rev (latex_candidates m))))"
    by (simp add: rev_filter)
  also have "\<dots> = rev (filter (\<lambda>c. LaTeXCandidate.math_priority c = p) (rev (latex_candidates m)))"
    by (simp only: sort_key_stable)
  also have "\<dots> = filter (\<lambda>c. LaTeXCandidate.math_priority c = p) (latex_candidates m)"
    by (simp add: rev_filter)
  finally show ?thesis
    by (simp add: SymbolMapping_get_ranked_candidates_def py_sorted_key_reverse)
qed

section \<open>Rounding\<close>

text \<open>
  The value of \<^const>\<open>fl\<close> where the binade is known, its value at the numbers the
  examples need, and its error: at most half a unit in the last place. Hence the
  tolerance test of the constructor agrees with the exact one outside a margin of
  \<open>1e-15\<close> around the tolerance.
\<close>

lemma ulp_exponent_eq:
  assumes "2 powr of_int k \<le> \<bar>x\<bar>" and "\<bar>x\<bar> < 2 powr of_int (k + 1)" and "- 1022 \<le> k"
  shows "ulp_exponent x = k - 52"
proof -
  have "0 < \<bar>x\<bar>" using assms(1) powr_gt_zero [of 2 "of_int k"] by linarith
  then have "\<lfloor>log 2 \<bar>x\<bar>\<rfloor> = k"
    using assms(1,2) by (simp add: floor_log_eq_powr_iff)
  with assms(3) show ?thesis by (simp add: ulp_exponent_def)
qed

lemma fl_0: "fl 0 = 0" by (simp add: fl_def)

lemma fl_1: "fl 1 = 1"
proof -
  have "ulp_exponent 1 = 0 - 52" by (rule ulp_exponent_eq) (simp_all add: powr_neg_numeral)
  then show ?thesis by (simp add: fl_def round_half_even_def powr_neg_numeral Let_def)
qed

lemma fl_tol: "fl (1 / 10 ^ 6) = 4722366482869645 / 2 ^ 72"
proof -
  have "ulp_exponent (1 / 10 ^ 6) = (- 20) - 52" by (rule ulp_exponent_eq) (simp_all add: powr_neg_numeral)
  then show ?thesis by (simp add: fl_def round_half_even_def powr_neg_numeral Let_def)
qed

lemma fl_tol_numeral: "fl (1 / 1000000) = 4722366482869645 / 2 ^ 72"
  using fl_tol by simp

lemma fl_sum: "fl (1 + 4722366482916869 / 2 ^ 72) = 1 + 4503599627 / 2 ^ 52"
proof -
  have "ulp_exponent (1 + 4722366482916869 / 2 ^ 72) = 0 - 52" by (rule ulp_exponent_eq) (simp_all add: powr_neg_numeral)
  then show ?thesis by (simp add: fl_def round_half_even_def powr_neg_numeral Let_def)
qed

lemma fl_diff: "fl (4503599627 / 2 ^ 52) = 4503599627 / 2 ^ 52"
proof -
  have "ulp_exponent (4503599627 / 2 ^ 52) = (- 20) - 52" by (rule ulp_exponent_eq) (simp_all add: powr_neg_numeral)
  then show ?thesis by (simp add: fl_def round_half_even_def powr_neg_numeral Let_def)
qed

lemma round_half_even_error: "\<bar>of_int (round_half_even q) - q\<bar> \<le> 1 / 2"
  unfolding round_half_even_def Let_def by (auto; linarith)

lemma pow2_ulp_exponent:
  assumes "x \<noteq> 0"
  shows "2 powr of_int (ulp_exponent x) \<le> \<bar>x\<bar> / 2 ^ 52 + 1 / 2 ^ 1074"
proof (cases "- 1022 \<le> \<lfloor>log 2 \<bar>x\<bar>\<rfloor>")
  case True
  then have u: "ulp_exponent x = \<lfloor>log 2 \<bar>x\<bar>\<rfloor> - 52" by (simp add: ulp_exponent_def)
  have "2 powr of_int \<lfloor>log 2 \<bar>x\<bar>\<rfloor> \<le> 2 powr (log 2 \<bar>x\<bar>)"
    by (rule powr_mono) simp_all
  also have "\<dots> = \<bar>x\<bar>" using assms by simp
  finally have "2 powr of_int \<lfloor>log 2 \<bar>x\<bar>\<rfloor> \<le> \<bar>x\<bar>" .
  moreover have "(2::real) powr of_int (ulp_exponent x) =
      2 powr of_int \<lfloor>log 2 \<bar>x\<bar>\<rfloor> / 2 ^ 52"
    unfolding u by (simp add: powr_diff)
  ultimately have "2 powr of_int (ulp_exponent x) \<le> \<bar>x\<bar> / 2 ^ 52"
    by (simp add: divide_right_mono)
  moreover have "(0::real) \<le> 1 / 2 ^ 1074" by simp
  ultimately show ?thesis by linarith
next
  case False
  then have "ulp_exponent x = - 1074" by (simp add: ulp_exponent_def)
  then have "(2::real) powr of_int (ulp_exponent x) = 1 / 2 ^ 1074"
    by (simp add: powr_neg_numeral)
  then show ?thesis by simp
qed

lemma fl_error: "\<bar>fl x - x\<bar> \<le> \<bar>x\<bar> / 2 ^ 53 + 1 / 2 ^ 1075"
proof (cases "x = 0")
  case True
  then show ?thesis by (simp add: fl_def)
next
  case False
  let ?p = "(2::real) powr of_int (ulp_exponent x)"
  let ?q = "x / ?p"
  have p: "0 < ?p" by simp
  have "fl x - x = (of_int (round_half_even ?q) - ?q) * ?p"
    using False p by (simp add: fl_def algebra_simps)
  then have "\<bar>fl x - x\<bar> = \<bar>of_int (round_half_even ?q) - ?q\<bar> * ?p"
    using p by (simp add: abs_mult)
  also have "\<dots> \<le> 1 / 2 * ?p"
    using round_half_even_error [of ?q] p by (intro mult_right_mono) simp_all
  also have "\<dots> \<le> 1 / 2 * (\<bar>x\<bar> / 2 ^ 52 + 1 / 2 ^ 1074)"
    using pow2_ulp_exponent [OF False] by simp
  also have "\<dots> = \<bar>x\<bar> / 2 ^ 53 + 1 / 2 ^ 1075" by simp
  finally show ?thesis .
qed

lemma fl_error_weak: "\<bar>fl x - x\<bar> \<le> \<bar>x\<bar> / 2 ^ 53 + 1 / 10 ^ 30"
proof -
  have "(1::real) / 2 ^ 1075 \<le> 1 / 10 ^ 30" by simp
  with fl_error [of x] show ?thesis by linarith
qed

lemma guard_accepts:
  assumes "\<bar>vw + mw - 1\<bar> \<le> 1 / 10 ^ 6 - 1 / 10 ^ 15"
  shows "\<bar>fl (fl (vw + mw) - 1)\<bar> \<le> fl (1 / 10 ^ 6)"
proof -
  let ?s = "vw + mw" and ?t = "fl (vw + mw)"
  have s: "\<bar>?s\<bar> \<le> 2" using assms by (simp add: abs_if field_simps split: if_splits)
  have "\<bar>?t - ?s\<bar> \<le> \<bar>?s\<bar> / 2 ^ 53 + 1 / 10 ^ 30" by (rule fl_error_weak)
  with s have e1: "\<bar>?t - ?s\<bar> \<le> 1 / 10 ^ 15 / 4" by (simp add: abs_if field_simps split: if_splits)
  with assms have t1: "\<bar>?t - 1\<bar> \<le> 1 / 10 ^ 6 - 3 / 4 / 10 ^ 15" by (simp add: abs_if field_simps split: if_splits)
  have "\<bar>fl (?t - 1) - (?t - 1)\<bar> \<le> \<bar>?t - 1\<bar> / 2 ^ 53 + 1 / 10 ^ 30" by (rule fl_error_weak)
  with t1 have "\<bar>fl (?t - 1) - (?t - 1)\<bar> \<le> 1 / 10 ^ 15 / 4" by (simp add: abs_if field_simps split: if_splits)
  with t1 have "\<bar>fl (?t - 1)\<bar> \<le> 1 / 10 ^ 6 - 1 / 2 / 10 ^ 15" by (simp add: abs_if field_simps split: if_splits)
  then show ?thesis unfolding fl_tol by (simp add: abs_if field_simps split: if_splits)
qed

lemma guard_rejects:
  assumes "1 / 10 ^ 6 + 1 / 10 ^ 15 \<le> \<bar>vw + mw - 1\<bar>"
  shows "\<not> \<bar>fl (fl (vw + mw) - 1)\<bar> \<le> fl (1 / 10 ^ 6)"
proof -
  let ?s = "vw + mw" and ?t = "fl (vw + mw)"
  let ?a = "\<bar>?s - 1\<bar>"
  have "\<bar>?t - ?s\<bar> \<le> \<bar>?s\<bar> / 2 ^ 53 + 1 / 10 ^ 30" by (rule fl_error_weak)
  then have t1: "?a - ((?a + 1) / 2 ^ 53 + 1 / 10 ^ 30) \<le> \<bar>?t - 1\<bar>" by (simp add: abs_if field_simps split: if_splits)
  with assms have t2: "1 / 10 ^ 6 + 1 / 2 / 10 ^ 15 \<le> \<bar>?t - 1\<bar>" by (simp add: abs_if field_simps split: if_splits)
  have "\<bar>fl (?t - 1) - (?t - 1)\<bar> \<le> \<bar>?t - 1\<bar> / 2 ^ 53 + 1 / 10 ^ 30" by (rule fl_error_weak)
  then have d: "\<bar>?t - 1\<bar> - (\<bar>?t - 1\<bar> / 2 ^ 53 + 1 / 10 ^ 30) \<le> \<bar>fl (?t - 1)\<bar>"
    by (simp add: abs_if field_simps split: if_splits)
  with t2 have "1 / 10 ^ 6 < \<bar>fl (?t - 1)\<bar>" by (simp add: abs_if field_simps split: if_splits)
  then show ?thesis unfolding fl_tol by (simp add: abs_if field_simps split: if_splits)
qed

lemma fl_half: "fl (1 / 2) = 1 / 2"
proof -
  have "ulp_exponent (1 / 2) = (- 1) - 52"
    by (rule ulp_exponent_eq) (simp_all add: powr_neg_numeral)
  then show ?thesis by (simp add: fl_def round_half_even_def powr_neg_numeral Let_def)
qed

lemma fl_three_quarters: "fl (3 / 4) = 3 / 4"
proof -
  have "ulp_exponent (3 / 4) = (- 1) - 52"
    by (rule ulp_exponent_eq) (simp_all add: powr_neg_numeral)
  then show ?thesis by (simp add: fl_def round_half_even_def powr_neg_numeral Let_def)
qed

lemma fl_three_fifths: "fl (3 / 5) = 5404319552844595 / 2 ^ 53"
proof -
  have "ulp_exponent (3 / 5) = (- 1) - 52"
    by (rule ulp_exponent_eq) (simp_all add: powr_neg_numeral)
  then show ?thesis by (simp add: fl_def round_half_even_def powr_neg_numeral Let_def)
qed

lemma fl_two_fifths: "fl (2 / 5) = 3602879701896397 / 2 ^ 53"
proof -
  have "ulp_exponent (2 / 5) = (- 2) - 52"
    by (rule ulp_exponent_eq) (simp_all add: powr_neg_numeral)
  then show ?thesis by (simp add: fl_def round_half_even_def powr_neg_numeral Let_def)
qed

lemma fl_default_weights: "fl (fl (3 / 5) + fl (2 / 5)) = 1"
proof -
  have "fl (3 / 5) + fl (2 / 5) = 1" by (simp add: fl_three_fifths fl_two_fifths)
  then show ?thesis by (simp only: fl_1)
qed

lemma fl_above_tolerance: "fl (4722366482916869 / 2 ^ 72) = 4722366482916869 / 2 ^ 72"
proof -
  have "ulp_exponent (4722366482916869 / 2 ^ 72) = (- 20) - 52"
    by (rule ulp_exponent_eq) (simp_all add: powr_neg_numeral)
  then show ?thesis by (simp add: fl_def round_half_even_def powr_neg_numeral Let_def)
qed

lemma fl_500001: "fl (500001 / 10 ^ 6) = 4503608634569751 / 2 ^ 53"
proof -
  have "ulp_exponent (500001 / 10 ^ 6) = (- 1) - 52"
    by (rule ulp_exponent_eq) (simp_all add: powr_neg_numeral)
  then show ?thesis by (simp add: fl_def round_half_even_def powr_neg_numeral Let_def)
qed

lemma fl_sum_500001: "fl (1 / 2 + 4503608634569751 / 2 ^ 53) = 1 + 4503599628 / 2 ^ 52"
proof -
  have "ulp_exponent (1 / 2 + 4503608634569751 / 2 ^ 53) = 0 - 52"
    by (rule ulp_exponent_eq) (simp_all add: powr_neg_numeral)
  then show ?thesis by (simp add: fl_def round_half_even_def powr_neg_numeral Let_def)
qed

section \<open>The merge keeps what is there\<close>

lemma merge_loop_preserves:
  "map_of (mappings self) k = Some m \<Longrightarrow> map_of (mappings (merge_loop xs self)) k = Some m"
proof (induction xs arbitrary: self)
  case Nil
  then show ?case by simp
next
  case (Cons x xs)
  obtain class_id mapping where x: "x = (class_id, mapping)" by (cases x)
  show ?case
  proof (cases "map_of (mappings self) class_id = None")
    case True
    with Cons.prems have "class_id \<noteq> k" by auto
    then have "map_of (mappings (self\<lparr>mappings := AList.update class_id mapping (mappings self)\<rparr>)) k
                 = Some m"
      using Cons.prems by (simp add: update_conv')
    from Cons.IH [OF this] show ?thesis using True x by simp
  next
    case False
    then have "merge_loop (x # xs) self = merge_loop xs self"
      using x by auto
    then show ?thesis using Cons.IH [OF Cons.prems] by simp
  qed
qed

lemma load_full_mapping_preserves:
  "get_mapping self k = Some m \<Longrightarrow>
   get_mapping (snd (load_full_mapping fs self path)) k = Some m"
  by (auto simp: load_full_mapping_def get_mapping_def merge_loop_preserves split: sum.splits)

lemma load_full_mapping_seq_preserves:
  "get_mapping self k = Some m \<Longrightarrow>
   get_mapping (fold (\<lambda>(fs, path) db. snd (load_full_mapping fs db path)) srcs self) k = Some m"
proof (induction srcs arbitrary: self)
  case Nil
  then show ?case by simp
next
  case (Cons s srcs)
  obtain fs path where s: "s = (fs, path)" by (cases s)
  from Cons.prems have "get_mapping (snd (load_full_mapping fs self path)) k = Some m"
    by (rule load_full_mapping_preserves)
  from Cons.IH [OF this] show ?case using s by simp
qed

lemma load_full_mapping_failure:
  "from_json_file fs path = Inl e \<Longrightarrow> load_full_mapping fs self path = (Some e, self)"
  by (simp add: load_full_mapping_def)

section \<open>Writing and reading back\<close>

text \<open>
  \<open>int(str(i))\<close> is \<open>i\<close>, a candidate and a mapping are read back as written, and
  so is the whole dict, entry by entry in its order.
\<close>

lemma digit_cases:
  assumes "d < 10"
  shows "d = 0 \<or> d = 1 \<or> d = 2 \<or> d = 3 \<or> d = 4 \<or> d = 5 \<or> d = 6 \<or> d = 7 \<or> d = 8 \<or> d = (9::nat)"
  using assms by arith

lemma digit_char_props:
  assumes "d < 10"
  shows "is_digit (digit_char d)" "digit_val (digit_char d) = d"
  using digit_cases [OF assms]
  by (auto simp: is_digit_def digit_val_def digit_char_def)

lemma is_digit_props:
  assumes "is_digit c"
  shows "\<not> is_space c" "c \<noteq> CHR ''_''" "c \<noteq> CHR ''-''" "c \<noteq> CHR ''+''"
  using assms by (auto simp: is_digit_def is_space_def)

lemma str_nat_nonempty: "str_nat n \<noteq> []"
  by (subst str_nat.simps) simp

lemma str_nat_digits: "c \<in> set (str_nat n) \<Longrightarrow> is_digit c"
proof (induction n arbitrary: c rule: str_nat.induct)
  case (1 n)
  show ?case
  proof (cases "n < 10")
    case True
    with 1(2) show ?thesis
      by (subst (asm) str_nat.simps) (simp add: digit_char_props)
  next
    case False
    with 1 show ?thesis
      by (subst (asm) (2) str_nat.simps) (auto simp: digit_char_props)
  qed
qed

lemma foldl_digits_str_nat:
  "foldl (\<lambda>acc c. 10 * acc + digit_val c) 0 (str_nat n) = n"
proof (induction n rule: str_nat.induct)
  case (1 n)
  show ?case
  proof (cases "n < 10")
    case True
    then show ?thesis by (subst str_nat.simps) (simp add: digit_char_props)
  next
    case False
    with 1 show ?thesis by (subst str_nat.simps) (simp add: digit_char_props)
  qed
qed

lemma digits_ok_all_digits:
  "s \<noteq> [] \<Longrightarrow> (\<forall>c \<in> set s. is_digit c) \<Longrightarrow> digits_ok s"
  by (induction s rule: digits_ok.induct) (auto simp: is_digit_props)

lemma filter_underscore_digits:
  "(\<forall>c \<in> set s. is_digit c) \<Longrightarrow> filter (\<lambda>c. c \<noteq> CHR ''_'') s = s"
  by (induction s) (auto simp: is_digit_props)

lemma py_strip_id:
  assumes "s \<noteq> []" and "\<not> is_space (hd s)" and "\<not> is_space (last s)"
  shows "py_strip s = s"
proof -
  from assms have a: "dropWhile is_space s = s"
    by (cases s) simp_all
  from assms have "rev s \<noteq> []" "\<not> is_space (hd (rev s))"
    by (simp_all add: hd_rev)
  then have "dropWhile is_space (rev s) = rev s"
    by (cases "rev s") simp_all
  with a show ?thesis by (simp add: py_strip_def)
qed

lemma str_nat_ok:
  shows "digits_ok (str_nat n)" "digits_val (str_nat n) = n"
    "\<not> is_space (hd (str_nat n))" "\<not> is_space (last (str_nat n))"
    "hd (str_nat n) \<noteq> CHR ''-''" "hd (str_nat n) \<noteq> CHR ''+''"
proof -
  have ne: "str_nat n \<noteq> []" by (rule str_nat_nonempty)
  have all: "\<forall>c \<in> set (str_nat n). is_digit c" using str_nat_digits by blast
  from ne all show "digits_ok (str_nat n)" by (rule digits_ok_all_digits)
  from all show "digits_val (str_nat n) = n"
    by (simp add: digits_val_def filter_underscore_digits foldl_digits_str_nat)
  from ne all have h: "is_digit (hd (str_nat n))" and l: "is_digit (last (str_nat n))"
    by simp_all
  from h show "\<not> is_space (hd (str_nat n))" "hd (str_nat n) \<noteq> CHR ''-''" "hd (str_nat n) \<noteq> CHR ''+''"
    by (simp_all add: is_digit_props)
  from l show "\<not> is_space (last (str_nat n))" by (simp add: is_digit_props)
qed

lemma py_int_py_str_int: "py_int (py_str_int i) = Inr i"
proof (cases "i < 0")
  case True
  let ?s = "CHR ''-'' # str_nat (nat (- i))"
  have "\<not> is_space (CHR ''-'')" by (simp add: is_space_def)
  then have "py_strip ?s = ?s"
    using str_nat_nonempty [of "nat (- i)"] str_nat_ok(4) [of "nat (- i)"]
    by (intro py_strip_id) simp_all
  then show ?thesis
    using True str_nat_ok(1,2) [of "nat (- i)"]
    by (simp add: py_int_def py_str_int_def Let_def)
next
  case False
  let ?s = "str_nat (nat i)"
  have "py_strip ?s = ?s"
    using str_nat_nonempty str_nat_ok(3,4) by (intro py_strip_id)
  then show ?thesis
    using False str_nat_nonempty [of "nat i"] str_nat_ok [of "nat i"]
    by (simp add: py_int_def py_str_int_def Let_def)
qed

lemma candidate_round_trip: "candidate_from_json (candidate_to_json c) = Inr c"
  by (cases c) (simp add: candidate_from_json_def candidate_to_json_def split: option.splits)

lemma candidates_loop_round_trip: "candidates_loop (map candidate_to_json cs) = Inr cs"
  by (induction cs) (simp_all add: candidate_round_trip)

lemma mapping_round_trip:
  "mapping_from_json (py_str_int k) (mapping_to_json m) =
     Inr (k, m\<lparr>SymbolMapping.symbol_class_id := k\<rparr>)"
  by (cases m) (simp add: mapping_from_json_def mapping_to_json_def py_int_py_str_int
      candidates_from_json_def candidates_loop_round_trip)

lemma update_fresh:
  "k \<notin> fst ` set al \<Longrightarrow> AList.update k v al = al @ [(k, v)]"
  by (induction al) auto

lemma from_json_loop_round_trip:
  assumes "distinct (map fst xs)" and "fst ` set xs \<inter> fst ` set acc = {}"
  shows "from_json_loop
           (map (\<lambda>(class_id, mapping). (py_str_int class_id, mapping_to_json mapping)) xs) acc =
         Inr (acc @ map rekey xs)"
  using assms
proof (induction xs arbitrary: acc)
  case Nil
  then show ?case by simp
next
  case (Cons x xs)
  obtain k m where x: "x = (k, m)" by (cases x)
  from Cons.prems x have fresh: "k \<notin> fst ` set acc" by auto
  have d: "distinct (map fst xs)" using Cons.prems by simp
  have "fst ` set xs \<inter> fst ` set (acc @ [(k, m\<lparr>SymbolMapping.symbol_class_id := k\<rparr>)]) = {}"
    using Cons.prems x by auto
  from Cons.IH [OF d this] show ?case
    by (simp add: x mapping_round_trip update_fresh [OF fresh] rekey_def)
qed

lemma from_json_to_json:
  assumes "distinct (map fst (mappings db))"
  shows "from_json (to_json db) = Inr \<lparr>mappings = map rekey (mappings db)\<rparr>"
  using from_json_loop_round_trip [OF assms, of "[]"]
  by (simp add: from_json_def to_json_def json_dumps_def json_loads_def)

lemma map_of_rekey:
  "map_of (map rekey xs) k =
     map_option (\<lambda>m. m\<lparr>SymbolMapping.symbol_class_id := k\<rparr>) (map_of xs k)"
  by (induction xs) (auto simp: rekey_def)

lemma tie_db_distinct: "distinct (map fst (mappings tie_db))"
  by (simp add: tie_db_def)

lemma tie_db_7: "get_mapping tie_db 7 = Some (snd (hd (mappings tie_db)))"
  by (simp add: tie_db_def get_mapping_def)

lemma mapping_from_json_key:
  assumes "mapping_from_json s v = Inr (k, m)"
  shows "py_int s = Inr k \<and> SymbolMapping.symbol_class_id m = k"
  using assms
  by (auto simp: mapping_from_json_def split: sum.splits json.splits option.splits)

lemma mapping_from_json_ignores_inner_id:
  "mapping_from_json s (JObj ((''symbol_class_id'', x) # kv)) = mapping_from_json s (JObj kv)"
  by (auto simp: mapping_from_json_def split: sum.splits option.splits)

lemma set_update_subset: "set (AList.update k v al) \<subseteq> insert (k, v) (set al)"
  by (induction al) auto

lemma from_json_loop_entries:
  assumes "from_json_loop items acc = Inr ms" and "(k, m) \<in> set ms"
  shows "(k, m) \<in> set acc \<or> (\<exists>s v. (s, v) \<in> set items \<and> mapping_from_json s v = Inr (k, m))"
  using assms
proof (induction items arbitrary: acc)
  case Nil
  then show ?case by simp
next
  case (Cons it items)
  obtain s v where it: "it = (s, v)" by (cases it)
  from Cons.prems(1) it obtain k' m' where r: "mapping_from_json s v = Inr (k', m')"
      and rest: "from_json_loop items (AList.update k' m' acc) = Inr ms"
    by (auto split: sum.splits)
  from Cons.IH [OF rest Cons.prems(2)]
  consider "(k, m) \<in> set (AList.update k' m' acc)"
    | "\<exists>s v. (s, v) \<in> set items \<and> mapping_from_json s v = Inr (k, m)" by blast
  then show ?case
  proof cases
    case 1
    with set_update_subset [of k' m' acc] have "(k, m) = (k', m') \<or> (k, m) \<in> set acc" by auto
    with r it show ?thesis by auto
  next
    case 2
    then show ?thesis by auto
  qed
qed

section \<open>Evaluating the examples\<close>

lemma py_int_7: "py_int ''7'' = Inr 7"
  by (simp add: py_int_def py_strip_def is_space_def is_digit_def digits_val_def digit_val_def)
lemma py_int_8: "py_int ''8'' = Inr 8"
  by (simp add: py_int_def py_strip_def is_space_def is_digit_def digits_val_def digit_val_def)

lemma from_json_example:
  "from_json (Doc example_doc) = Inr \<lparr>mappings =
     [(7, \<lparr>SymbolMapping.symbol_class_id = 7, symbol_name = ''generated seven'',
           latex_candidates = [\<lparr>command = ''z'', LaTeXCandidate.math_priority = 0.4,
              LaTeXCandidate.context' = ''generated'',
              LaTeXCandidate.description = Some ''from the file''\<rparr>]\<rparr>),
      (8, \<lparr>SymbolMapping.symbol_class_id = 8, symbol_name = ''generated eight'',
           latex_candidates = [\<lparr>command = ''y'', LaTeXCandidate.math_priority = 1,
              LaTeXCandidate.context' = ''generated'',
              LaTeXCandidate.description = None\<rparr>]\<rparr>)]\<rparr>"
  by (simp add: from_json_def json_loads_def example_doc_def example_items_def mapping_from_json_def
      py_int_7 py_int_8
      candidates_from_json_def candidate_from_json_def)

section \<open>Claims on the mapping database\<close>

text \<open>
  Claim C7. For every symbol id, \<open>get_ranked_candidates\<close> returns the empty list when
  the id is not in the database; otherwise it returns the stored candidates (the same
  multiset), in descending order of priority, and the candidates of equal priority keep
  their stored order. The function reads the database and changes nothing, so every call
  on the same database returns this same list.
\<close>

theorem get_ranked_candidates_descending_stable:
  "(get_mapping db i = None \<longrightarrow> get_ranked_candidates db i = []) \<and>
   (\<forall>m. get_mapping db i = Some m \<longrightarrow>
      mset (get_ranked_candidates db i) = mset (latex_candidates m) \<and>
      sorted_wrt (\<lambda>a b. LaTeXCandidate.math_priority a \<ge> LaTeXCandidate.math_priority b)
        (get_ranked_candidates db i) \<and>
      (\<forall>p. filter (\<lambda>c. LaTeXCandidate.math_priority c = p) (get_ranked_candidates db i) =
           filter (\<lambda>c. LaTeXCandidate.math_priority c = p) (latex_candidates m)))"
  by (simp add: get_ranked_candidates_def ranked_mset ranked_descending ranked_stable)

theorem get_ranked_candidates_descending_stable_witness:
  "get_mapping tie_db 8 = None \<and> get_ranked_candidates tie_db 8 = [] \<and>
   get_mapping tie_db 7 = Some (snd (hd (mappings tie_db))) \<and>
   map command (get_ranked_candidates tie_db 7) = [''b'', ''a'', ''c''] \<and>
   sorted_wrt (\<lambda>a b. LaTeXCandidate.math_priority a \<ge> LaTeXCandidate.math_priority b)
     (get_ranked_candidates tie_db 7) \<and>
   map command (filter (\<lambda>c. LaTeXCandidate.math_priority c = 0.5) (get_ranked_candidates tie_db 7))
     = [''a'', ''c'']"
proof -
  have none: "get_mapping tie_db 8 = None"
    by (simp add: tie_db_def get_mapping_def)
  have some: "get_mapping tie_db 7 = Some (snd (hd (mappings tie_db)))"
    by (simp add: tie_db_def get_mapping_def)
  have ev: "map command (get_ranked_candidates tie_db 7) = [''b'', ''a'', ''c'']"
    by (simp add: tie_db_def get_ranked_candidates_def get_mapping_def
      SymbolMapping_get_ranked_candidates_def py_sorted_key_def py_sort_def)
  have cands: "map command (filter (\<lambda>c. LaTeXCandidate.math_priority c = 0.5)
      (latex_candidates (snd (hd (mappings tie_db))))) = [''a'', ''c'']"
    by (simp add: tie_db_def)
  from get_ranked_candidates_descending_stable [of tie_db 8] none
  have a: "get_ranked_candidates tie_db 8 = []" by simp
  from get_ranked_candidates_descending_stable [of tie_db 7] some
  have b: "sorted_wrt (\<lambda>a b. LaTeXCandidate.math_priority a \<ge> LaTeXCandidate.math_priority b)
        (get_ranked_candidates tie_db 7)"
    by blast
  from get_ranked_candidates_descending_stable [of tie_db 7] some
  have c: "filter (\<lambda>c. LaTeXCandidate.math_priority c = 0.5) (get_ranked_candidates tie_db 7) =
           filter (\<lambda>c. LaTeXCandidate.math_priority c = 0.5)
             (latex_candidates (snd (hd (mappings tie_db))))"
    by blast
  show ?thesis using none some ev a b cands unfolding c by blast
qed

text \<open>
  Claim C4. Every symbol id that the database maps before a merge is mapped to the same
  \<open>SymbolMapping\<close> after it, for one call of \<open>load_full_mapping\<close> and for any
  sequence of calls on any files, whether a call succeeds or raises: the merge adds
  absent ids only and neither overwrites nor removes an entry.
\<close>

theorem merge_keeps_existing_mappings:
  assumes "get_mapping self k = Some m"
  shows "get_mapping (snd (load_full_mapping fs self path)) k = Some m \<and>
         get_mapping (fold (\<lambda>(fs, path) db. snd (load_full_mapping fs db path)) srcs self) k = Some m"
  using assms by (simp add: load_full_mapping_preserves load_full_mapping_seq_preserves)

theorem merge_keeps_existing_mappings_witness:
  "get_mapping tie_db 7 = Some (snd (hd (mappings tie_db))) \<and>
   get_mapping (snd (load_full_mapping fs_example tie_db ''full.json'')) 7
     = Some (snd (hd (mappings tie_db))) \<and>
   get_mapping (fold (\<lambda>(fs, path) db. snd (load_full_mapping fs db path))
       [(fs_example, ''full.json''), (fs_malformed, ''bad.json''), (fs_example, ''full.json'')] tie_db) 7
     = Some (snd (hd (mappings tie_db))) \<and>
   map fst (mappings (snd (load_full_mapping fs_example tie_db ''full.json''))) = [7, 8]"
proof -
  have some: "get_mapping tie_db 7 = Some (snd (hd (mappings tie_db)))"
    by (simp add: tie_db_def get_mapping_def)
  have keys: "map fst (mappings (snd (load_full_mapping fs_example tie_db ''full.json''))) = [7, 8]"
    by (simp add: load_full_mapping_def from_json_file_def fs_example_def from_json_example tie_db_def)
  show ?thesis
    using some keys merge_keeps_existing_mappings [OF some, of fs_example "''full.json''"
        "[(fs_example, ''full.json''), (fs_malformed, ''bad.json''), (fs_example, ''full.json'')]"]
    by simp
qed

section \<open>The two ranking loops\<close>

text \<open>
  Both loops append, pair by pair, what \<^const>\<open>suggestions_for\<close> gives; the loop over
  the selected indices is the loop over the pairs with the indices read as ids.
\<close>

lemma top_k_loop_concat:
  "top_k_loop self k pairs acc = acc @ concat (map (suggestions_for self k) pairs)"
proof (induction pairs arbitrary: acc)
  case Nil
  then show ?case by simp
next
  case (Cons p pairs)
  obtain i c where p: "p = (i, c)" by (cases p)
  show ?case
    unfolding p by (simp add: Cons.IH suggestions_for_def Let_def)
qed

lemma predictions_loop_top_k_loop:
  "predictions_loop self k sel acc = top_k_loop self k (map of_index sel) acc"
proof (induction sel arbitrary: acc)
  case Nil
  then show ?case by simp
next
  case (Cons p sel)
  obtain i c where p: "p = (i, c)" by (cases p)
  show ?case
    unfolding p by (simp add: Cons.IH of_index_def Let_def)
qed

lemma rank_candidates_from_top_k_concat:
  "rank_candidates_from_top_k self pairs k =
     sort_key (\<lambda>r. - combined_score r) (concat (map (suggestions_for self k) pairs))"
  by (simp add: rank_candidates_from_top_k_def top_k_loop_concat py_sort_RankedCandidate_lt)

lemma rank_candidates_selected:
  "top_k_selection argsort v ks = Inr sel \<Longrightarrow>
   rank_candidates argsort self v ks k = Inr (rank_candidates_from_top_k self (map of_index sel) k)"
  by (simp add: rank_candidates_def rank_candidates_from_top_k_def predictions_loop_top_k_loop)

lemma rank_candidates_returns:
  "rank_candidates argsort self v ks k = Inr rs \<Longrightarrow>
   \<exists>sel. top_k_selection argsort v ks = Inr sel \<and>
         rs = rank_candidates_from_top_k self (map of_index sel) k"
  by (auto simp: rank_candidates_def rank_candidates_from_top_k_def predictions_loop_top_k_loop
      split: sum.splits)

lemma suggestions_for_fields:
  assumes "r \<in> set (suggestions_for self k (i, c))"
  shows "RankedCandidate.symbol_class_id r = i \<and> vision_confidence r = c \<and>
         combined_score r = vision_weight self * c + math_weight self * RankedCandidate.math_priority r"
  using assms by (auto simp: suggestions_for_def Let_def split: if_splits)

lemma suggestions_for_unmapped:
  assumes "get_mapping (CandidateRanker.mapping_db self) i = None"
  shows "suggestions_for self k (i, c) =
     [\<lparr>latex_command = CHR 0x5C # ''symbol_'' @ py_str_int i,
       symbol_class_id = i, vision_confidence = c, math_priority = 0.5,
       combined_score = c * vision_weight self + 0.5 * math_weight self,
       context' = ''symbol (no mapping available)'',
       description = Some (''Symbol class '' @ py_str_int i @ '' - mapping not yet available'')\<rparr>]"
  using assms by (simp add: suggestions_for_def get_ranked_candidates_def)

lemma suggestions_for_nonempty:
  assumes "get_mapping (CandidateRanker.mapping_db self) i = None \<or> 1 \<le> k"
  shows "suggestions_for self k (i, c) \<noteq> []"
proof (cases "get_ranked_candidates (CandidateRanker.mapping_db self) i = []")
  case True
  then show ?thesis by (simp add: suggestions_for_def)
next
  case False
  with assms have "1 \<le> k" by (auto simp: get_ranked_candidates_def)
  then have "py_slice_to k (get_ranked_candidates (CandidateRanker.mapping_db self) i) \<noteq> []"
    using False by (auto simp: py_slice_to_def take_eq_Nil)
  then show ?thesis using False by (simp add: suggestions_for_def Let_def)
qed

lemma ranked_member:
  "r \<in> set (rank_candidates_from_top_k self pairs k) \<longleftrightarrow>
   (\<exists>p \<in> set pairs. r \<in> set (suggestions_for self k p))"
  by (auto simp: rank_candidates_from_top_k_concat)

lemma filter_id_concat:
  assumes "get_mapping (CandidateRanker.mapping_db self) i = None"
  shows "length (filter (\<lambda>r. RankedCandidate.symbol_class_id r = i)
            (concat (map (suggestions_for self k) pairs))) =
         length (filter (\<lambda>p. fst p = i) pairs)"
proof (induction pairs)
  case Nil
  then show ?case by simp
next
  case (Cons p pairs)
  obtain j c where p: "p = (j, c)" by (cases p)
  show ?case
  proof (cases "j = i")
    case True
    then show ?thesis
      using Cons.IH p suggestions_for_unmapped [OF assms, of k c] by simp
  next
    case False
    have "filter (\<lambda>r. RankedCandidate.symbol_class_id r = i) (suggestions_for self k (j, c)) = []"
      using False suggestions_for_fields [of _ self k j c] by (auto simp: filter_empty_conv)
    then show ?thesis using Cons.IH p False by simp
  qed
qed

lemma ranked_count_unmapped:
  assumes "get_mapping (CandidateRanker.mapping_db self) i = None"
  shows "length (filter (\<lambda>r. RankedCandidate.symbol_class_id r = i)
            (rank_candidates_from_top_k self pairs k)) =
         length (filter (\<lambda>p. fst p = i) pairs)"
  by (simp add: rank_candidates_from_top_k_concat filter_sort filter_id_concat [OF assms])

lemma ranked_unmapped_fields:
  assumes "get_mapping (CandidateRanker.mapping_db self) i = None"
      and "r \<in> set (rank_candidates_from_top_k self pairs k)"
      and "RankedCandidate.symbol_class_id r = i"
  shows "latex_command r = CHR 0x5C # ''symbol_'' @ py_str_int i \<and>
         RankedCandidate.math_priority r = 0.5 \<and>
         combined_score r = vision_weight self * vision_confidence r + math_weight self * 0.5 \<and>
         (i, vision_confidence r) \<in> set pairs"
proof -
  from assms(2) obtain p where p: "p \<in> set pairs" "r \<in> set (suggestions_for self k p)"
    by (auto simp: ranked_member)
  obtain j c where jc: "p = (j, c)" by (cases p)
  from suggestions_for_fields [of r self k j c] p jc assms(3) have "j = i" by simp
  with p jc suggestions_for_unmapped [OF assms(1), of k c] show ?thesis
    by (auto simp: algebra_simps)
qed

lemma ranked_not_dropped:
  assumes "(i, c) \<in> set pairs"
      and "get_mapping (CandidateRanker.mapping_db self) i = None \<or> 1 \<le> k"
  shows "\<exists>r \<in> set (rank_candidates_from_top_k self pairs k).
           RankedCandidate.symbol_class_id r = i \<and> vision_confidence r = c"
proof -
  from suggestions_for_nonempty [OF assms(2), of c]
  obtain r where r: "r \<in> set (suggestions_for self k (i, c))"
    by (cases "suggestions_for self k (i, c)") auto
  with assms(1) have "r \<in> set (rank_candidates_from_top_k self pairs k)"
    by (auto simp: ranked_member)
  with suggestions_for_fields [OF r] show ?thesis by blast
qed

lemma top_k_selection_empty: "top_k_selection argsort [] ks = Inl ValueError"
  by (simp add: top_k_selection_def np_min_def)

lemma argsort_example: "argsort_stable [1 / 10, 7 / 10, 1 / 5] = [0, 2, 1]"
  by (simp add: argsort_stable_def py_sort_def upt_rec)

lemma selection_example:
  "top_k_selection argsort_stable [0.1, 0.7, 0.2] 2 = Inr [(1, 0.7), (2, 0.2)]"
  by (simp add: top_k_selection_def np_min_def np_max_def argsort_example py_slice_from_def Let_def)

lemma get_mapping_seed_1:
  "get_mapping SymbolMappingDatabase_init 1 = Some (snd (hd initialize_mappings))"
  by (simp add: get_mapping_def SymbolMappingDatabase_init_def initialize_mappings_def)

lemma ranked_seed_1:
  "map (\<lambda>c. (command c, LaTeXCandidate.math_priority c)) (get_ranked_candidates SymbolMappingDatabase_init 1) =
     [(CHR 0x5C # ''implies'', 1), (CHR 0x5C # ''Rightarrow'', 0.6), (CHR 0x5C # ''rightarrow'', 0.3)]"
  by (simp add: get_ranked_candidates_def get_mapping_seed_1 initialize_mappings_def
      SymbolMapping_get_ranked_candidates_def py_sorted_key_def py_sort_def)

lemma get_mapping_seed_99: "get_mapping SymbolMappingDatabase_init 99 = None"
  by (simp add: get_mapping_def SymbolMappingDatabase_init_def initialize_mappings_def)

lemma str_99: "py_str_int 99 = ''99''"
  by (simp add: py_str_int_def str_nat.simps digit_char_def)

lemma example_ranking:
  "map (\<lambda>r. (latex_command r, RankedCandidate.symbol_class_id r, vision_confidence r,
              RankedCandidate.math_priority r, combined_score r))
     (rank_candidates_from_top_k default_ranker [(99, 0.3), (1, 0.85)] 3) =
   [(CHR 0x5C # ''implies'', 1, 0.85, 1, 0.91),
    (CHR 0x5C # ''Rightarrow'', 1, 0.85, 0.6, 0.75),
    (CHR 0x5C # ''rightarrow'', 1, 0.85, 0.3, 0.63),
    (CHR 0x5C # ''symbol_99'', 99, 0.3, 0.5, 0.38)]"
  by (simp add: rank_candidates_from_top_k_def default_ranker_def Let_def
      get_ranked_candidates_def get_mapping_seed_1 get_mapping_seed_99 initialize_mappings_def
      SymbolMapping_get_ranked_candidates_def py_sorted_key_def py_sort_def py_slice_to_def
      RankedCandidate_lt_def str_99)

lemma dropped_example:
  "rank_candidates_from_top_k default_ranker [(1, 0.9)] 0 = []"
  by (simp add: rank_candidates_from_top_k_def default_ranker_def Let_def
      get_ranked_candidates_def get_mapping_seed_1 initialize_mappings_def
      SymbolMapping_get_ranked_candidates_def py_sorted_key_def py_sort_def py_slice_to_def)

lemma init_weights:
  "CandidateRanker_init db vw mw = Inr rk \<Longrightarrow>
   vision_weight rk = vw \<and> math_weight rk = mw \<and>
   CandidateRanker.mapping_db rk = (case db of None \<Rightarrow> SymbolMappingDatabase_init | Some d \<Rightarrow> d)"
  by (auto simp: CandidateRanker_init_def Let_def split: if_splits)

lemma ranked_fields:
  assumes "r \<in> set (rank_candidates_from_top_k self pairs k)"
  shows "combined_score r =
           vision_weight self * vision_confidence r + math_weight self * RankedCandidate.math_priority r \<and>
         (RankedCandidate.symbol_class_id r, vision_confidence r) \<in> set pairs"
proof -
  from assms obtain p where p: "p \<in> set pairs" "r \<in> set (suggestions_for self k p)"
    by (auto simp: ranked_member)
  obtain i c where ic: "p = (i, c)" by (cases p)
  from suggestions_for_fields [of r self k i c] p ic show ?thesis by simp
qed

lemma init_default: "CandidateRanker_init None 0.6 0.4 = Inr default_ranker"
  by (simp add: CandidateRanker_init_def default_ranker_def fl_three_fifths fl_two_fifths
      fl_0 fl_1 fl_tol_numeral)

section \<open>The constructors\<close>

text \<open>
  When the constructor of the ranker accepts, the default weights, and what the two
  constructors of the engine print and return when the merge raises or the file is
  missing.
\<close>

lemma init_accepts_iff:
  "(\<exists>rk. CandidateRanker_init db vw mw = Inr rk) \<longleftrightarrow>
   \<bar>fl (fl (fl vw + fl mw) - 1)\<bar> \<le> fl (1 / 10 ^ 6)"
  by (auto simp: CandidateRanker_init_def Let_def)

lemma init_rejects:
  "\<not> \<bar>fl (fl (fl vw + fl mw) - 1)\<bar> \<le> fl (1 / 10 ^ 6) \<Longrightarrow>
   CandidateRanker_init db vw mw = Inl ValueError"
  by (auto simp: CandidateRanker_init_def Let_def)

lemma fl_weight_above_tolerance: "fl weight_above_tolerance = weight_above_tolerance"
  unfolding weight_above_tolerance_def by (rule fl_above_tolerance)

lemma boundary_accepted:
  "\<bar>fl (fl (fl 1 + fl weight_above_tolerance) - 1)\<bar> \<le> fl (1 / 10 ^ 6)"
proof -
  have "fl (fl 1 + fl weight_above_tolerance) - 1 = 4503599627 / 2 ^ 52"
    unfolding weight_above_tolerance_def fl_1 fl_above_tolerance fl_sum by simp
  then have "fl (fl (fl 1 + fl weight_above_tolerance) - 1) = 4503599627 / 2 ^ 52"
    by (simp only: fl_diff)
  then show ?thesis unfolding fl_tol by simp
qed

lemma fl_diff_500001: "fl (4503599628 / 2 ^ 52) = 4503599628 / 2 ^ 52"
proof -
  have "ulp_exponent (4503599628 / 2 ^ 52) = (- 20) - 52"
    by (rule ulp_exponent_eq) (simp_all add: powr_neg_numeral)
  then show ?thesis by (simp add: fl_def round_half_even_def powr_neg_numeral Let_def)
qed

lemma literal_rejected:
  "\<not> \<bar>fl (fl (fl (1 / 2) + fl (500001 / 10 ^ 6)) - 1)\<bar> \<le> fl (1 / 10 ^ 6)"
proof -
  have "fl (fl (1 / 2) + fl (500001 / 10 ^ 6)) - 1 = 4503599628 / 2 ^ 52"
    unfolding fl_half fl_500001 fl_sum_500001 by simp
  then have "fl (fl (fl (1 / 2) + fl (500001 / 10 ^ 6)) - 1) = 4503599628 / 2 ^ 52"
    by (simp only: fl_diff_500001)
  then show ?thesis unfolding fl_tol by simp
qed

lemma init_default_some:
  "CandidateRanker_init (Some SymbolMappingDatabase_init) 0.6 0.4 = Inr default_ranker"
  by (simp add: CandidateRanker_init_def default_ranker_def fl_three_fifths fl_two_fifths
      fl_0 fl_1 fl_tol_numeral)

lemma engine_init_merge_fails:
  assumes "from_json_file fs (here @ ''/mapping_db/symbol_mapping_full.json'') = Inl e"
      and "path_exists fs (here @ ''/mapping_db/symbol_mapping_full.json'')"
  shows "SemanticSuggestionEngine_init fs here None None rd True =
           ([Warning_could_not_load e, Using_default_mappings_only],
            Inr \<lparr>mapping_db = SymbolMappingDatabase_init, ranker = default_ranker, renderer = rd\<rparr>)"
  using assms init_default_some
  by (simp add: SemanticSuggestionEngine_init_def load_full_mapping_failure)

lemma engine_init_no_file:
  assumes "\<not> path_exists fs (here @ ''/mapping_db/symbol_mapping_full.json'')"
  shows "SemanticSuggestionEngine_init fs here None None rd True =
           ([], Inr \<lparr>mapping_db = SymbolMappingDatabase_init, ranker = default_ranker, renderer = rd\<rparr>)"
  using assms init_default_some
  by (simp add: SemanticSuggestionEngine_init_def)

lemma create_engine_merge_fails:
  assumes "from_json_file fs (here @ ''/mapping_db/symbol_mapping_full.json'') = Inl e"
      and "path_exists fs (here @ ''/mapping_db/symbol_mapping_full.json'')"
      and "CandidateRanker_init (Some SymbolMappingDatabase_init) vw mw = Inr r"
  shows "create_suggestion_engine fs here vw mw True =
           ([Warning_could_not_load e],
            Inr \<lparr>mapping_db = SymbolMappingDatabase_init, ranker = r, renderer = None\<rparr>)"
  using assms
  by (simp add: create_suggestion_engine_def SemanticSuggestionEngine_init_def
      load_full_mapping_failure)

lemma create_engine_no_file:
  assumes "\<not> path_exists fs (here @ ''/mapping_db/symbol_mapping_full.json'')"
      and "CandidateRanker_init (Some SymbolMappingDatabase_init) vw mw = Inr r"
  shows "create_suggestion_engine fs here vw mw True =
           ([], Inr \<lparr>mapping_db = SymbolMappingDatabase_init, ranker = r, renderer = None\<rparr>)"
  using assms
  by (simp add: create_suggestion_engine_def SemanticSuggestionEngine_init_def)

section \<open>The recorded scores\<close>

text \<open>
  With the weights of the ranker, one iteration of the loop appends what the scoring
  rule asks for.
\<close>

lemma suggestions_for_scored:
  assumes "vision_weight rk = vw" and "math_weight rk = mw"
  shows "suggestions_for rk kc p = scored_suggestions vw mw (CandidateRanker.mapping_db rk) kc p"
proof -
  obtain i c where p: "p = (i, c)" by (cases p)
  show ?thesis
    unfolding p using assms
    by (simp add: suggestions_for_def scored_suggestions_def Let_def mult.commute)
qed

lemma ranked_mset_scored:
  assumes "vision_weight rk = vw" and "math_weight rk = mw"
  shows "mset (rank_candidates_from_top_k rk pairs kc) =
         mset (concat (map (scored_suggestions vw mw (CandidateRanker.mapping_db rk) kc) pairs))"
proof -
  have "suggestions_for rk kc = scored_suggestions vw mw (CandidateRanker.mapping_db rk) kc"
    using suggestions_for_scored [OF assms] by (intro ext)
  then show ?thesis by (simp add: rank_candidates_from_top_k_concat)
qed

lemma selection_example_2:
  "top_k_selection argsort_stable [0.15, 0.85] 1 = Inr [(1, 0.85)]"
proof -
  have "argsort_stable [3 / 20, 17 / 20] = [0, 1]"
    by (simp add: argsort_stable_def py_sort_def upt_rec)
  then show ?thesis
    by (simp add: top_k_selection_def np_min_def np_max_def py_slice_from_def Let_def)
qed

lemma scored_example:
  "map (\<lambda>r. (latex_command r, vision_confidence r, RankedCandidate.math_priority r,
              combined_score r))
     (scored_suggestions 0.6 0.4 SymbolMappingDatabase_init 3 (1, 0.85)) =
   [(CHR 0x5C # ''implies'', 0.85, 1, 0.91),
    (CHR 0x5C # ''Rightarrow'', 0.85, 0.6, 0.75),
    (CHR 0x5C # ''rightarrow'', 0.85, 0.3, 0.63)]"
  by (simp add: scored_suggestions_def Let_def
      get_ranked_candidates_def get_mapping_seed_1 initialize_mappings_def
      SymbolMapping_get_ranked_candidates_def py_sorted_key_def py_sort_def py_slice_to_def)

section \<open>Claims on the ranker\<close>

text \<open>
  Claim C2, amended. For every pair of finite weights, the construction of a ranker
  succeeds if and only if \<open>abs((vision_weight + math_weight) - 1.0)\<close>, computed in
  double precision from the two doubles passed, is at most the double \<open>1e-6\<close>. It
  therefore succeeds whenever the exact sum \<open>s\<close> of the two doubles has
  \<open>|s - 1| \<le> 1e-6 - 1e-15\<close> and fails whenever \<open>|s - 1| \<ge> 1e-6 + 1e-15\<close>; in
  between, the rounding decides. When it fails it raises \<open>ValueError\<close> and no ranker
  is produced; when it succeeds the ranker holds the two weights as given.
\<close>

theorem ranker_construction:
  "((\<exists>rk. CandidateRanker_init db vw mw = Inr rk) \<longleftrightarrow>
      \<bar>fl (fl (fl vw + fl mw) - 1)\<bar> \<le> fl (1 / 10 ^ 6)) \<and>
   (\<bar>fl vw + fl mw - 1\<bar> \<le> 1 / 10 ^ 6 - 1 / 10 ^ 15 \<longrightarrow>
      (\<exists>rk. CandidateRanker_init db vw mw = Inr rk)) \<and>
   (1 / 10 ^ 6 + 1 / 10 ^ 15 \<le> \<bar>fl vw + fl mw - 1\<bar> \<longrightarrow>
      CandidateRanker_init db vw mw = Inl ValueError) \<and>
   (\<not> \<bar>fl (fl (fl vw + fl mw) - 1)\<bar> \<le> fl (1 / 10 ^ 6) \<longrightarrow>
      CandidateRanker_init db vw mw = Inl ValueError) \<and>
   (\<forall>rk. CandidateRanker_init db vw mw = Inr rk \<longrightarrow>
      vision_weight rk = vw \<and> math_weight rk = mw)"
proof (intro conjI impI allI)
  show "(\<exists>rk. CandidateRanker_init db vw mw = Inr rk) \<longleftrightarrow>
      \<bar>fl (fl (fl vw + fl mw) - 1)\<bar> \<le> fl (1 / 10 ^ 6)"
    by (rule init_accepts_iff)
next
  assume "\<bar>fl vw + fl mw - 1\<bar> \<le> 1 / 10 ^ 6 - 1 / 10 ^ 15"
  then have "\<bar>fl (fl (fl vw + fl mw) - 1)\<bar> \<le> fl (1 / 10 ^ 6)" by (rule guard_accepts)
  then show "\<exists>rk. CandidateRanker_init db vw mw = Inr rk" by (simp only: init_accepts_iff)
next
  assume "1 / 10 ^ 6 + 1 / 10 ^ 15 \<le> \<bar>fl vw + fl mw - 1\<bar>"
  then have "\<not> \<bar>fl (fl (fl vw + fl mw) - 1)\<bar> \<le> fl (1 / 10 ^ 6)" by (rule guard_rejects)
  then show "CandidateRanker_init db vw mw = Inl ValueError" by (rule init_rejects)
next
  assume "\<not> \<bar>fl (fl (fl vw + fl mw) - 1)\<bar> \<le> fl (1 / 10 ^ 6)"
  then show "CandidateRanker_init db vw mw = Inl ValueError" by (rule init_rejects)
next
  fix rk assume "CandidateRanker_init db vw mw = Inr rk"
  from init_weights [OF this] show "vision_weight rk = vw" "math_weight rk = mw" by simp_all
qed

theorem ranker_construction_witness:
  "\<bar>fl (1 / 2) + fl (1 / 2) - 1\<bar> \<le> 1 / 10 ^ 6 - 1 / 10 ^ 15 \<and>
   (\<exists>rk. CandidateRanker_init None (1 / 2) (1 / 2) = Inr rk) \<and>
   1 / 10 ^ 6 + 1 / 10 ^ 15 \<le> \<bar>fl (3 / 4) + fl (1 / 2) - 1\<bar> \<and>
   CandidateRanker_init None (3 / 4) (1 / 2) = Inl ValueError \<and>
   \<not> \<bar>fl (fl (fl (1 / 2) + fl (500001 / 10 ^ 6)) - 1)\<bar> \<le> fl (1 / 10 ^ 6) \<and>
   CandidateRanker_init None (1 / 2) (500001 / 10 ^ 6) = Inl ValueError \<and>
   \<bar>fl (fl (fl 1 + fl weight_above_tolerance) - 1)\<bar> \<le> fl (1 / 10 ^ 6) \<and>
   (\<exists>rk. CandidateRanker_init None 1 weight_above_tolerance = Inr rk)"
proof -
  have a: "\<bar>fl (1 / 2) + fl (1 / 2) - 1\<bar> \<le> 1 / 10 ^ 6 - 1 / 10 ^ 15"
    unfolding fl_half by simp
  have b: "1 / 10 ^ 6 + 1 / 10 ^ 15 \<le> \<bar>fl (3 / 4) + fl (1 / 2) - 1\<bar>"
    unfolding fl_half fl_three_quarters by simp
  from ranker_construction [of None "1 / 2" "1 / 2"] a
  have c: "\<exists>rk. CandidateRanker_init None (1 / 2) (1 / 2) = Inr rk" by blast
  from ranker_construction [of None "3 / 4" "1 / 2"] b
  have d: "CandidateRanker_init None (3 / 4) (1 / 2) = Inl ValueError" by blast
  from ranker_construction [of None "1 / 2" "500001 / 10 ^ 6"] literal_rejected
  have e: "CandidateRanker_init None (1 / 2) (500001 / 10 ^ 6) = Inl ValueError" by blast
  from ranker_construction [of None 1 weight_above_tolerance] boundary_accepted
  have f: "\<exists>rk. CandidateRanker_init None 1 weight_above_tolerance = Inr rk" by blast
  from a b c d e f literal_rejected boundary_accepted show ?thesis by blast
qed

text \<open>
  Claim C2 as stated fails at the boundary: the doubles \<open>1.0\<close> and
  \<open>1.00000000001e-06\<close> have \<open>|vision_weight + math_weight - 1| > 1e-6\<close>, yet their
  sum rounds to a double whose distance from 1 is below the tolerance, and the ranker is
  constructed.
\<close>

theorem tolerance_boundary_counterexample:
  "fl 1 = 1 \<and> fl weight_above_tolerance = weight_above_tolerance \<and>
   CandidateRanker_init None 1 weight_above_tolerance =
     Inr \<lparr>CandidateRanker.mapping_db = SymbolMappingDatabase_init,
          vision_weight = 1, math_weight = weight_above_tolerance\<rparr> \<and>
   \<not> \<bar>1 + weight_above_tolerance - 1\<bar> \<le> 1 / 10 ^ 6"
proof -
  have "\<not> \<bar>fl (fl (fl 1 + fl weight_above_tolerance) - 1)\<bar> > fl (1 / 10 ^ 6)"
    using boundary_accepted by simp
  then have "CandidateRanker_init None 1 weight_above_tolerance =
     Inr \<lparr>CandidateRanker.mapping_db = SymbolMappingDatabase_init,
          vision_weight = 1, math_weight = weight_above_tolerance\<rparr>"
    by (simp add: CandidateRanker_init_def Let_def)
  moreover have "\<not> \<bar>1 + weight_above_tolerance - 1\<bar> \<le> 1 / 10 ^ 6"
    by (simp add: weight_above_tolerance_def)
  ultimately show ?thesis using fl_1 fl_weight_above_tolerance by blast
qed

text \<open>
  Claim C6. Ranking an empty list of (symbol id, confidence) pairs returns the empty
  list. Ranking an empty prediction vector does not: \<open>rank_candidates\<close> takes the
  minimum of the vector first, which raises \<open>ValueError\<close> on an array of size zero,
  whatever the other arguments are.
\<close>

theorem empty_input_ranking:
  "rank_candidates argsort rk [] ks kc = Inl ValueError \<and> rank_candidates_from_top_k rk [] kc = []"
  by (simp add: rank_candidates_def top_k_selection_empty rank_candidates_from_top_k_def py_sort_def)

text \<open>
  Claim C9. Whenever the normalisation and the selection of \<open>rank_candidates\<close>
  yield a sequence of (index, confidence) pairs, \<open>rank_candidates\<close> returns exactly
  the list that \<open>rank_candidates_from_top_k\<close> returns on these pairs: the same
  suggestions with the same scores in the same order. This holds for every
  \<open>argsort\<close>.
\<close>

theorem entry_points_agree:
  assumes "top_k_selection argsort v ks = Inr sel"
  shows "rank_candidates argsort rk v ks kc =
           Inr (rank_candidates_from_top_k rk (map of_index sel) kc)"
  using assms by (rule rank_candidates_selected)

theorem entry_points_agree_witness:
  "top_k_selection argsort_stable [0.1, 0.7, 0.2] 2 = Inr [(1, 0.7), (2, 0.2)] \<and>
   rank_candidates argsort_stable default_ranker [0.1, 0.7, 0.2] 2 3 =
     Inr (rank_candidates_from_top_k default_ranker [(1, 0.7), (2, 0.2)] 3)"
  using selection_example entry_points_agree [OF selection_example, of default_ranker 3]
  by (simp add: of_index_def)

text \<open>
  Claim C1. For every ranker constructed with the weights \<open>vw\<close> and \<open>mw\<close>, what
  either entry point returns is, up to order, exactly what the scoring rule asks for:
  for every ranked pair, each kept candidate of the symbol (or the placeholder) with its
  stored priority, the confidence of the pair, and the combined score
  \<open>vw * confidence + mw * priority\<close>. So every suggestion records this score of the
  confidence and priority it records, and \<open>rank_candidates\<close> returns such a list
  exactly when its selection succeeds. With the weights 0.6 and 0.4, the confidence 0.85
  and the priority 1.0 give 0.91.
\<close>

theorem combined_score_formula:
  assumes "CandidateRanker_init db vw mw = Inr rk"
  shows "mset (rank_candidates_from_top_k rk pairs kc) =
           mset (concat (map (scored_suggestions vw mw (CandidateRanker.mapping_db rk) kc) pairs)) \<and>
         (\<forall>r \<in> set (rank_candidates_from_top_k rk pairs kc).
            combined_score r = vw * vision_confidence r + mw * RankedCandidate.math_priority r \<and>
            (RankedCandidate.symbol_class_id r, vision_confidence r) \<in> set pairs) \<and>
         (\<forall>sel. top_k_selection argsort v ks = Inr sel \<longrightarrow>
            (\<exists>rs. rank_candidates argsort rk v ks kc = Inr rs \<and>
               mset rs =
                 mset (concat (map (scored_suggestions vw mw (CandidateRanker.mapping_db rk) kc)
                                   (map of_index sel))) \<and>
               (\<forall>r \<in> set rs.
                  combined_score r = vw * vision_confidence r + mw * RankedCandidate.math_priority r \<and>
                  (RankedCandidate.symbol_class_id r, vision_confidence r) \<in> set (map of_index sel)))) \<and>
         (\<forall>rs. rank_candidates argsort rk v ks kc = Inr rs \<longrightarrow>
            (\<exists>sel. top_k_selection argsort v ks = Inr sel))"
proof -
  from init_weights [OF assms] have w: "vision_weight rk = vw" "math_weight rk = mw" by simp_all
  have a: "mset (rank_candidates_from_top_k rk pairs kc) =
           mset (concat (map (scored_suggestions vw mw (CandidateRanker.mapping_db rk) kc) pairs))"
    for pairs
    by (rule ranked_mset_scored [OF w])
  have b: "\<forall>r \<in> set (rank_candidates_from_top_k rk pairs kc).
            combined_score r = vw * vision_confidence r + mw * RankedCandidate.math_priority r \<and>
            (RankedCandidate.symbol_class_id r, vision_confidence r) \<in> set pairs" for pairs
    using ranked_fields [of _ rk pairs kc] w by simp
  have c: "\<exists>rs. rank_candidates argsort rk v ks kc = Inr rs \<and>
               mset rs =
                 mset (concat (map (scored_suggestions vw mw (CandidateRanker.mapping_db rk) kc)
                                   (map of_index sel))) \<and>
               (\<forall>r \<in> set rs.
                  combined_score r = vw * vision_confidence r + mw * RankedCandidate.math_priority r \<and>
                  (RankedCandidate.symbol_class_id r, vision_confidence r) \<in> set (map of_index sel))"
    if "top_k_selection argsort v ks = Inr sel" for sel
    using rank_candidates_selected [OF that, of rk kc] a [of "map of_index sel"]
      b [of "map of_index sel"] by simp
  have d: "\<exists>sel. top_k_selection argsort v ks = Inr sel"
    if "rank_candidates argsort rk v ks kc = Inr rs" for rs
    using rank_candidates_returns [OF that] by blast
  show ?thesis
    apply (intro conjI allI impI)
       apply (rule a)
      apply (rule b)
     apply (erule c)
    apply (erule d)
    done
qed

theorem combined_score_formula_witness:
  "CandidateRanker_init None 0.6 0.4 = Inr default_ranker \<and>
   top_k_selection argsort_stable [0.15, 0.85] 1 = Inr [(1, 0.85)] \<and>
   (\<exists>rs. rank_candidates argsort_stable default_ranker [0.15, 0.85] 1 3 = Inr rs \<and>
      image_mset (\<lambda>r. (latex_command r, vision_confidence r, RankedCandidate.math_priority r,
                        combined_score r)) (mset rs) =
        {#(CHR 0x5C # ''implies'', 0.85, 1, 0.91), (CHR 0x5C # ''Rightarrow'', 0.85, 0.6, 0.75),
          (CHR 0x5C # ''rightarrow'', 0.85, 0.3, 0.63)#}) \<and>
   image_mset (\<lambda>r. (latex_command r, vision_confidence r, RankedCandidate.math_priority r,
                     combined_score r))
      (mset (rank_candidates_from_top_k default_ranker [(1, 0.85)] 3)) =
     {#(CHR 0x5C # ''implies'', 0.85, 1, 0.91), (CHR 0x5C # ''Rightarrow'', 0.85, 0.6, 0.75),
       (CHR 0x5C # ''rightarrow'', 0.85, 0.3, 0.63)#}"
proof -
  let ?f = "\<lambda>r. (latex_command r, vision_confidence r, RankedCandidate.math_priority r,
                  combined_score r)"
  let ?S = "scored_suggestions 0.6 0.4 SymbolMappingDatabase_init 3 (1, 0.85)"
  have db: "CandidateRanker.mapping_db default_ranker = SymbolMappingDatabase_init"
    by (simp add: default_ranker_def)
  have m: "image_mset ?f (mset ?S) =
      {#(CHR 0x5C # ''implies'', 0.85, 1, 0.91), (CHR 0x5C # ''Rightarrow'', 0.85, 0.6, 0.75),
        (CHR 0x5C # ''rightarrow'', 0.85, 0.3, 0.63)#}"
    using arg_cong [OF scored_example, of mset] by simp
  note t = combined_score_formula [OF init_default, of "[(1, 0.85)]" 3 argsort_stable "[0.15, 0.85]" 1]
  from t have p: "mset (rank_candidates_from_top_k default_ranker [(1, 0.85)] 3) = mset ?S"
    by (simp add: db)
  from t selection_example_2 obtain rs
    where rs: "rank_candidates argsort_stable default_ranker [0.15, 0.85] 1 3 = Inr rs"
      and ms: "mset rs = mset ?S"
    by (auto simp: db of_index_def)
  have e: "\<exists>rs. rank_candidates argsort_stable default_ranker [0.15, 0.85] 1 3 = Inr rs \<and>
      image_mset ?f (mset rs) =
        {#(CHR 0x5C # ''implies'', 0.85, 1, 0.91), (CHR 0x5C # ''Rightarrow'', 0.85, 0.6, 0.75),
          (CHR 0x5C # ''rightarrow'', 0.85, 0.3, 0.63)#}"
    using rs m unfolding ms [symmetric] by blast
  have q: "image_mset ?f (mset (rank_candidates_from_top_k default_ranker [(1, 0.85)] 3)) =
      {#(CHR 0x5C # ''implies'', 0.85, 1, 0.91), (CHR 0x5C # ''Rightarrow'', 0.85, 0.6, 0.75),
        (CHR 0x5C # ''rightarrow'', 0.85, 0.3, 0.63)#}"
    using m unfolding p .
  from init_default selection_example_2 e q show ?thesis by blast
qed

text \<open>
  Claim C8, amended. Let the id \<open>i\<close> have no entry in the database. Then the ranking
  holds exactly one suggestion with this id for each time the id is selected; each has
  the command \<open>\symbol_\<close> followed by the decimal id, the priority 0.5 and the combined
  score \<open>vision_weight * confidence + math_weight * 0.5\<close> (0.38 for the weights
  0.6 and 0.4 and the confidence 0.3). A selected symbol without an entry is never
  dropped, and no selected symbol is dropped when \<open>top_k_candidates_per_symbol\<close> is
  at least 1. Both entry points behave so.
\<close>

theorem placeholder_for_unmapped_symbol:
  assumes "get_mapping (CandidateRanker.mapping_db rk) i = None"
  shows "length (filter (\<lambda>r. RankedCandidate.symbol_class_id r = i)
              (rank_candidates_from_top_k rk pairs kc)) =
           length (filter (\<lambda>p. fst p = i) pairs) \<and>
         (\<forall>r \<in> set (rank_candidates_from_top_k rk pairs kc).
            RankedCandidate.symbol_class_id r = i \<longrightarrow>
              latex_command r = CHR 0x5C # ''symbol_'' @ py_str_int i \<and>
              RankedCandidate.math_priority r = 0.5 \<and>
              combined_score r = vision_weight rk * vision_confidence r + math_weight rk * 0.5 \<and>
              (i, vision_confidence r) \<in> set pairs) \<and>
         (\<forall>(j, c) \<in> set pairs.
            get_mapping (CandidateRanker.mapping_db rk) j = None \<or> 1 \<le> kc \<longrightarrow>
              (\<exists>r \<in> set (rank_candidates_from_top_k rk pairs kc).
                 RankedCandidate.symbol_class_id r = j \<and> vision_confidence r = c)) \<and>
         (\<forall>rs. rank_candidates argsort rk v ks kc = Inr rs \<longrightarrow>
            (\<exists>sel. top_k_selection argsort v ks = Inr sel \<and>
               length (filter (\<lambda>r. RankedCandidate.symbol_class_id r = i) rs) =
                 length (filter (\<lambda>p. int (fst p) = i) sel) \<and>
               (\<forall>r \<in> set rs.
                  RankedCandidate.symbol_class_id r = i \<longrightarrow>
                    latex_command r = CHR 0x5C # ''symbol_'' @ py_str_int i \<and>
                    RankedCandidate.math_priority r = 0.5 \<and>
                    combined_score r = vision_weight rk * vision_confidence r + math_weight rk * 0.5) \<and>
               (\<forall>(j, c) \<in> set sel.
                  get_mapping (CandidateRanker.mapping_db rk) (int j) = None \<or> 1 \<le> kc \<longrightarrow>
                    (\<exists>r \<in> set rs.
                       RankedCandidate.symbol_class_id r = int j \<and> vision_confidence r = c))))"
proof -
  have a: "length (filter (\<lambda>r. RankedCandidate.symbol_class_id r = i)
              (rank_candidates_from_top_k rk pairs kc)) =
           length (filter (\<lambda>p. fst p = i) pairs)" for pairs
    by (rule ranked_count_unmapped [OF assms])
  have b: "\<forall>r \<in> set (rank_candidates_from_top_k rk pairs kc).
            RankedCandidate.symbol_class_id r = i \<longrightarrow>
              latex_command r = CHR 0x5C # ''symbol_'' @ py_str_int i \<and>
              RankedCandidate.math_priority r = 0.5 \<and>
              combined_score r = vision_weight rk * vision_confidence r + math_weight rk * 0.5 \<and>
              (i, vision_confidence r) \<in> set pairs" for pairs
    using ranked_unmapped_fields [OF assms] by blast
  have c: "\<forall>(j, c) \<in> set pairs.
            get_mapping (CandidateRanker.mapping_db rk) j = None \<or> 1 \<le> kc \<longrightarrow>
              (\<exists>r \<in> set (rank_candidates_from_top_k rk pairs kc).
                 RankedCandidate.symbol_class_id r = j \<and> vision_confidence r = c)" for pairs
    using ranked_not_dropped [of _ _ pairs rk kc] by blast
  have d: "\<exists>sel. top_k_selection argsort v ks = Inr sel \<and>
               length (filter (\<lambda>r. RankedCandidate.symbol_class_id r = i) rs) =
                 length (filter (\<lambda>p. int (fst p) = i) sel) \<and>
               (\<forall>r \<in> set rs.
                  RankedCandidate.symbol_class_id r = i \<longrightarrow>
                    latex_command r = CHR 0x5C # ''symbol_'' @ py_str_int i \<and>
                    RankedCandidate.math_priority r = 0.5 \<and>
                    combined_score r = vision_weight rk * vision_confidence r + math_weight rk * 0.5) \<and>
               (\<forall>(j, c) \<in> set sel.
                  get_mapping (CandidateRanker.mapping_db rk) (int j) = None \<or> 1 \<le> kc \<longrightarrow>
                    (\<exists>r \<in> set rs.
                       RankedCandidate.symbol_class_id r = int j \<and> vision_confidence r = c))"
    if "rank_candidates argsort rk v ks kc = Inr rs" for rs
  proof -
    from rank_candidates_returns [OF that] obtain sel
      where sel: "top_k_selection argsort v ks = Inr sel"
        and rs: "rs = rank_candidates_from_top_k rk (map of_index sel) kc" by blast
    have l: "length (filter (\<lambda>p. fst p = i) (map of_index sel)) =
             length (filter (\<lambda>p. int (fst p) = i) sel)"
      by (induction sel) (simp_all add: of_index_def)
    have m: "\<forall>(j, c) \<in> set sel.
                  get_mapping (CandidateRanker.mapping_db rk) (int j) = None \<or> 1 \<le> kc \<longrightarrow>
                    (\<exists>r \<in> set rs.
                       RankedCandidate.symbol_class_id r = int j \<and> vision_confidence r = c)"
    proof (clarify)
      fix j c
      assume "(j, c) \<in> set sel"
        and h: "get_mapping (CandidateRanker.mapping_db rk) (int j) = None \<or> 1 \<le> kc"
      then have "(int j, c) \<in> set (map of_index sel)"
        by (force simp: of_index_def)
      from ranked_not_dropped [OF this h] rs
      show "\<exists>r \<in> set rs. RankedCandidate.symbol_class_id r = int j \<and> vision_confidence r = c"
        by simp
    qed
    from sel rs a [of "map of_index sel"] b [of "map of_index sel"] l m show ?thesis
      by auto
  qed
  show ?thesis
    apply (intro conjI allI impI)
       apply (rule a)
      apply (rule b)
     apply (rule c)
    apply (erule d)
    done
qed

theorem placeholder_for_unmapped_symbol_witness:
  "get_mapping (CandidateRanker.mapping_db default_ranker) 99 = None \<and>
   length (filter (\<lambda>r. RankedCandidate.symbol_class_id r = 99)
      (rank_candidates_from_top_k default_ranker [(99, 0.3), (1, 0.85)] 3)) = 1 \<and>
   (\<exists>r \<in> set (rank_candidates_from_top_k default_ranker [(99, 0.3), (1, 0.85)] 3).
      RankedCandidate.symbol_class_id r = 99 \<and> vision_confidence r = 0.3 \<and>
      latex_command r = CHR 0x5C # ''symbol_99'' \<and>
      RankedCandidate.math_priority r = 0.5 \<and> combined_score r = 0.38)"
proof -
  let ?rs = "rank_candidates_from_top_k default_ranker [(99, 0.3), (1, 0.85)] 3"
  have none: "get_mapping (CandidateRanker.mapping_db default_ranker) 99 = None"
    by (simp add: default_ranker_def get_mapping_seed_99)
  note t = placeholder_for_unmapped_symbol [OF none, of "[(99, 0.3), (1, 0.85)]" 3]
  from t have n: "length (filter (\<lambda>r. RankedCandidate.symbol_class_id r = 99) ?rs) = 1"
    by simp
  note t3 = t [THEN conjunct2, THEN conjunct2, THEN conjunct1]
  have m: "(99 :: int, 0.3 :: real) \<in> set [(99, 0.3), (1, 0.85)]" by simp
  from bspec [OF t3 m]
  have "get_mapping (CandidateRanker.mapping_db default_ranker) 99 = None \<or> (1 :: int) \<le> 3 \<longrightarrow>
      (\<exists>r \<in> set ?rs. RankedCandidate.symbol_class_id r = 99 \<and> vision_confidence r = 0.3)"
    by (simp only: prod.case)
  with none obtain r where r: "r \<in> set ?rs" "RankedCandidate.symbol_class_id r = 99"
      "vision_confidence r = 0.3"
    by blast
  with t have "latex_command r = CHR 0x5C # ''symbol_'' @ py_str_int 99 \<and>
      RankedCandidate.math_priority r = 0.5 \<and>
      combined_score r = vision_weight default_ranker * vision_confidence r +
        math_weight default_ranker * 0.5"
    by blast
  with r have "latex_command r = CHR 0x5C # ''symbol_99'' \<and>
      RankedCandidate.math_priority r = 0.5 \<and> combined_score r = 0.38"
    by (simp add: str_99 default_ranker_def)
  with r none n show ?thesis by blast
qed

text \<open>
  Claim C8 as stated fails: with \<open>top_k_candidates_per_symbol = 0\<close> the slice
  \<open>latex_candidates[:0]\<close> is empty, and the selected symbol 1, which the curated
  table maps, contributes no suggestion at all.
\<close>

theorem mapped_symbol_dropped_counterexample:
  "get_mapping (CandidateRanker.mapping_db default_ranker) 1 = Some (snd (hd initialize_mappings)) \<and>
   rank_candidates_from_top_k default_ranker [(1, 0.9)] 0 = []"
proof -
  have "get_mapping (CandidateRanker.mapping_db default_ranker) 1 = Some (snd (hd initialize_mappings))"
    by (simp add: default_ranker_def get_mapping_seed_1)
  with dropped_example show ?thesis by blast
qed

section \<open>Claim on a merge that fails\<close>

text \<open>
  Claim C5, amended. When the file of the generated mappings cannot be read or parsed,
  \<open>load_full_mapping\<close> raises the error to its caller and leaves the database exactly
  as it was. The two constructors of the engine that call it catch the error when the
  file exists: they print a warning and build the engine on the curated mappings alone.
  When the file does not exist they do not call the merge and print nothing.
\<close>

theorem merge_failure_outcomes:
  assumes "from_json_file fs path = Inl e"
      and "e \<noteq> IllTyped"
      and "path = here @ ''/mapping_db/symbol_mapping_full.json''"
  shows "load_full_mapping fs self path = (Some e, self) \<and>
         (path_exists fs path \<longrightarrow>
            SemanticSuggestionEngine_init fs here None None rd True =
              ([Warning_could_not_load e, Using_default_mappings_only],
               Inr \<lparr>mapping_db = SymbolMappingDatabase_init, ranker = default_ranker,
                    renderer = rd\<rparr>) \<and>
            (\<forall>vw mw r. CandidateRanker_init (Some SymbolMappingDatabase_init) vw mw = Inr r \<longrightarrow>
               create_suggestion_engine fs here vw mw True =
                 ([Warning_could_not_load e],
                  Inr \<lparr>mapping_db = SymbolMappingDatabase_init, ranker = r, renderer = None\<rparr>))) \<and>
         (\<not> path_exists fs path \<longrightarrow>
            SemanticSuggestionEngine_init fs here None None rd True =
              ([], Inr \<lparr>mapping_db = SymbolMappingDatabase_init, ranker = default_ranker,
                        renderer = rd\<rparr>) \<and>
            (\<forall>vw mw r. CandidateRanker_init (Some SymbolMappingDatabase_init) vw mw = Inr r \<longrightarrow>
               create_suggestion_engine fs here vw mw True =
                 ([], Inr \<lparr>mapping_db = SymbolMappingDatabase_init, ranker = r, renderer = None\<rparr>)))"
proof -
  let ?p = "here @ ''/mapping_db/symbol_mapping_full.json''"
  from assms(1,3) have f: "from_json_file fs ?p = Inl e" by simp
  have a: "load_full_mapping fs self path = (Some e, self)"
    using assms(1) by (rule load_full_mapping_failure)
  have b: "SemanticSuggestionEngine_init fs here None None rd True =
              ([Warning_could_not_load e, Using_default_mappings_only],
               Inr \<lparr>mapping_db = SymbolMappingDatabase_init, ranker = default_ranker,
                    renderer = rd\<rparr>)"
    if "path_exists fs path"
    using that assms(3) engine_init_merge_fails [OF f] by simp
  have c: "create_suggestion_engine fs here vw mw True =
                 ([Warning_could_not_load e],
                  Inr \<lparr>mapping_db = SymbolMappingDatabase_init, ranker = r, renderer = None\<rparr>)"
    if "path_exists fs path" "CandidateRanker_init (Some SymbolMappingDatabase_init) vw mw = Inr r"
    for vw mw r
    using that assms(3) create_engine_merge_fails [OF f] by simp
  have d: "SemanticSuggestionEngine_init fs here None None rd True =
              ([], Inr \<lparr>mapping_db = SymbolMappingDatabase_init, ranker = default_ranker,
                        renderer = rd\<rparr>)"
    if "\<not> path_exists fs path"
    using that assms(3) engine_init_no_file by simp
  have e: "create_suggestion_engine fs here vw mw True =
                 ([], Inr \<lparr>mapping_db = SymbolMappingDatabase_init, ranker = r, renderer = None\<rparr>)"
    if "\<not> path_exists fs path" "CandidateRanker_init (Some SymbolMappingDatabase_init) vw mw = Inr r"
    for vw mw r
    using that assms(3) create_engine_no_file by simp
  from a b c d e show ?thesis by blast
qed

theorem merge_failure_outcomes_witness:
  "from_json_file fs_unreadable (''/srv'' @ ''/mapping_db/symbol_mapping_full.json'') = Inl OSError \<and>
   path_exists fs_unreadable (''/srv'' @ ''/mapping_db/symbol_mapping_full.json'') \<and>
   load_full_mapping fs_unreadable tie_db (''/srv'' @ ''/mapping_db/symbol_mapping_full.json'')
     = (Some OSError, tie_db) \<and>
   SemanticSuggestionEngine_init fs_unreadable ''/srv'' None None (None :: unit option) True =
     ([Warning_could_not_load OSError, Using_default_mappings_only],
      Inr \<lparr>mapping_db = SymbolMappingDatabase_init, ranker = default_ranker, renderer = None\<rparr>) \<and>
   (create_suggestion_engine fs_unreadable ''/srv'' 0.6 0.4 True
      :: log_line list \<times> (error + unit SemanticSuggestionEngine)) =
     ([Warning_could_not_load OSError],
      Inr \<lparr>mapping_db = SymbolMappingDatabase_init, ranker = default_ranker, renderer = None\<rparr>) \<and>
   from_json_file fs_missing (''/srv'' @ ''/mapping_db/symbol_mapping_full.json'') = Inl OSError \<and>
   \<not> path_exists fs_missing (''/srv'' @ ''/mapping_db/symbol_mapping_full.json'') \<and>
   SemanticSuggestionEngine_init fs_missing ''/srv'' None None (None :: unit option) True =
     ([], Inr \<lparr>mapping_db = SymbolMappingDatabase_init, ranker = default_ranker, renderer = None\<rparr>)"
proof -
  let ?p = "''/srv'' @ ''/mapping_db/symbol_mapping_full.json''"
  have a: "from_json_file fs_unreadable ?p = Inl OSError"
    by (simp add: from_json_file_def fs_unreadable_def)
  have b: "path_exists fs_unreadable ?p" by (simp add: fs_unreadable_def)
  have c: "from_json_file fs_missing ?p = Inl OSError"
    by (simp add: from_json_file_def fs_missing_def)
  have d: "\<not> path_exists fs_missing ?p" by (simp add: fs_missing_def)
  have ne: "OSError \<noteq> IllTyped" by simp
  note t1 = merge_failure_outcomes [OF a ne refl, of tie_db "None :: unit option"]
  note t2 = merge_failure_outcomes [OF c ne refl, of tie_db "None :: unit option"]
  from t1 b init_default_some t2 d a c show ?thesis by blast
qed

text \<open>
  Claim C5 as stated fails: on an unreadable file \<open>load_full_mapping\<close> raises
  \<open>OSError\<close> to its caller, a hard error, and on a missing file the constructor of
  the engine reports nothing at all.
\<close>

theorem merge_failure_raises_counterexample:
  "load_full_mapping fs_unreadable tie_db ''symbol_mapping_full.json'' = (Some OSError, tie_db) \<and>
   SemanticSuggestionEngine_init fs_missing ''/srv'' None None (None :: unit option) True =
     ([], Inr \<lparr>mapping_db = SymbolMappingDatabase_init, ranker = default_ranker, renderer = None\<rparr>)"
proof -
  have "load_full_mapping fs_unreadable tie_db ''symbol_mapping_full.json'' = (Some OSError, tie_db)"
    by (simp add: load_full_mapping_def from_json_file_def fs_unreadable_def)
  moreover have "SemanticSuggestionEngine_init fs_missing ''/srv'' None None (None :: unit option) True =
     ([], Inr \<lparr>mapping_db = SymbolMappingDatabase_init, ranker = default_ranker, renderer = None\<rparr>)"
    using init_default_some by (simp add: SemanticSuggestionEngine_init_def fs_missing_def)
  ultimately show ?thesis by blast
qed

section \<open>Claims on the serialisation\<close>

text \<open>
  Claim C3. For every database (a dict, so with pairwise distinct ids), reading back
  what \<open>to_json\<close> wrote succeeds and gives a database with the same ids, in the same
  order, in which every id has the same \<open>symbol_name\<close> and the same list of
  candidates: the same commands, priorities, contexts and descriptions, absent ones
  included, in the same order.
\<close>

theorem serialisation_round_trip:
  assumes "distinct (map fst (mappings db))"
  shows "\<exists>db'. from_json (to_json db) = Inr db' \<and>
           map fst (mappings db') = map fst (mappings db) \<and>
           fst ` set (mappings db') = fst ` set (mappings db) \<and>
           (\<forall>k m. get_mapping db k = Some m \<longrightarrow>
              (\<exists>m'. get_mapping db' k = Some m' \<and>
                    symbol_name m' = symbol_name m \<and>
                    latex_candidates m' = latex_candidates m))"
proof -
  let ?db' = "\<lparr>mappings = map rekey (mappings db)\<rparr>"
  have keys: "map fst (mappings ?db') = map fst (mappings db)"
    by (simp add: rekey_def comp_def)
  have keyset: "fst ` set (mappings ?db') = fst ` set (mappings db)"
    by (force simp: rekey_def)
  have vals: "\<forall>k m. get_mapping db k = Some m \<longrightarrow>
              (\<exists>m'. get_mapping ?db' k = Some m' \<and>
                    symbol_name m' = symbol_name m \<and>
                    latex_candidates m' = latex_candidates m)"
    by (simp add: get_mapping_def map_of_rekey)
  from from_json_to_json [OF assms] keys keyset vals show ?thesis by blast
qed

theorem serialisation_round_trip_witness:
  "distinct (map fst (mappings tie_db)) \<and>
   (\<exists>db'. from_json (to_json tie_db) = Inr db' \<and>
      map fst (mappings db') = [7] \<and>
      (\<exists>m'. get_mapping db' 7 = Some m' \<and> symbol_name m' = ''tie'' \<and>
         map (\<lambda>c. (command c, LaTeXCandidate.math_priority c, LaTeXCandidate.description c))
             (latex_candidates m') = [(''a'', 0.5, None), (''b'', 0.9, None), (''c'', 0.5, None)]))"
proof -
  from serialisation_round_trip [OF tie_db_distinct] obtain db'
    where a: "from_json (to_json tie_db) = Inr db'"
      and b: "map fst (mappings db') = map fst (mappings tie_db)"
      and c: "\<forall>k m. get_mapping tie_db k = Some m \<longrightarrow>
              (\<exists>m'. get_mapping db' k = Some m' \<and>
                    symbol_name m' = symbol_name m \<and>
                    latex_candidates m' = latex_candidates m)"
    by blast
  from c tie_db_7 obtain m' where m': "get_mapping db' 7 = Some m'"
      "symbol_name m' = symbol_name (snd (hd (mappings tie_db)))"
      "latex_candidates m' = latex_candidates (snd (hd (mappings tie_db)))"
    by blast
  have "map fst (mappings tie_db) = [7]" by (simp add: tie_db_def)
  with b have b': "map fst (mappings db') = [7]" by simp
  have n: "symbol_name (snd (hd (mappings tie_db))) = ''tie''" by (simp add: tie_db_def)
  have l: "map (\<lambda>c. (command c, LaTeXCandidate.math_priority c, LaTeXCandidate.description c))
             (latex_candidates (snd (hd (mappings tie_db)))) =
           [(''a'', 0.5, None), (''b'', 0.9, None), (''c'', 0.5, None)]"
    by (simp add: tie_db_def)
  from a b' m' n l tie_db_distinct show ?thesis by auto
qed

text \<open>
  Claim C10. In every database that \<open>from_json\<close> returns, each mapping has as
  \<open>symbol_class_id\<close> the key it is stored under, and this key is \<open>int\<close> of the
  text key of the record it was read from. The \<open>symbol_class_id\<close> inside the record
  is not read: whatever value it is set to, the same mapping results. So when the key
  and the inner field disagree, the key wins.
\<close>

theorem deserialised_id_is_the_key:
  assumes "from_json (Doc (JObj items)) = Inr db" and "(k, m) \<in> set (mappings db)"
  shows "SymbolMapping.symbol_class_id m = k \<and>
         (\<exists>s v. (s, v) \<in> set items \<and> py_int s = Inr k \<and>
            (\<forall>x kv. v = JObj kv \<longrightarrow>
               mapping_from_json s (JObj ((''symbol_class_id'', x) # kv)) = Inr (k, m)))"
proof -
  from assms(1) have "from_json_loop items [] = Inr (mappings db)"
    by (auto simp: from_json_def json_loads_def split: sum.splits)
  from from_json_loop_entries [OF this assms(2)] obtain s v
    where sv: "(s, v) \<in> set items" "mapping_from_json s v = Inr (k, m)" by auto
  from mapping_from_json_key [OF sv(2)] have km: "py_int s = Inr k" "SymbolMapping.symbol_class_id m = k"
    by simp_all
  have "\<forall>x kv. v = JObj kv \<longrightarrow>
               mapping_from_json s (JObj ((''symbol_class_id'', x) # kv)) = Inr (k, m)"
    using sv(2) mapping_from_json_ignores_inner_id by auto
  with sv km show ?thesis by blast
qed

theorem deserialised_id_is_the_key_witness:
  "(\<exists>db m. from_json (Doc (JObj example_items)) = Inr db \<and> (7, m) \<in> set (mappings db) \<and>
      SymbolMapping.symbol_class_id m = 7 \<and> symbol_name m = ''generated seven'') \<and>
   (\<exists>kv. map_of example_items ''7'' = Some (JObj kv) \<and>
      map_of kv ''symbol_class_id'' = Some (JInt 99))"
proof -
  let ?m = "\<lparr>SymbolMapping.symbol_class_id = 7, symbol_name = ''generated seven'',
           latex_candidates = [\<lparr>command = ''z'', LaTeXCandidate.math_priority = 0.4,
              LaTeXCandidate.context' = ''generated'',
              LaTeXCandidate.description = Some ''from the file''\<rparr>]\<rparr>"
  from from_json_example obtain db where db: "from_json (Doc (JObj example_items)) = Inr db"
      and m: "(7, ?m) \<in> set (mappings db)"
    by (simp add: example_doc_def)
  from deserialised_id_is_the_key [OF db m]
  have "SymbolMapping.symbol_class_id ?m = 7" by blast
  moreover have "\<exists>kv. map_of example_items ''7'' = Some (JObj kv) \<and>
      map_of kv ''symbol_class_id'' = Some (JInt 99)"
    by (simp add: example_items_def)
  ultimately show ?thesis using db m by (intro conjI exI [of _ db] exI [of _ ?m]) simp_all
qed

end
